theory Spec2Isabelle
  imports Complex_Main "HOL-Library.Sublist" "HOL-Library.Log_Nat"
begin

section \<open>Documents: the values \<^verbatim>\<open>json.loads\<close> produces\<close>

text \<open>
  \<^verbatim>\<open>app.py\<close> works on whatever \<^verbatim>\<open>json.loads\<close> returned: \<^verbatim>\<open>None\<close>, \<^verbatim>\<open>bool\<close>,
  \<^verbatim>\<open>int\<close>, \<^verbatim>\<open>float\<close>, \<^verbatim>\<open>str\<close>, \<^verbatim>\<open>list\<close> and \<^verbatim>\<open>dict\<close> with string keys.
  \<^item> An \<^verbatim>\<open>int\<close> is unbounded, as in Python.
  \<^item> A \<^verbatim>\<open>float\<close> is a \<open>pyfloat\<close>: \<open>Finite x\<close> is the double whose exact value is the
    rational \<open>x\<close> (\<open>Finite 0\<close> is \<^verbatim>\<open>0.0\<close>), and the doubles that are no rational keep
    their own constructors: \<^verbatim>\<open>-0.0\<close>, \<^verbatim>\<open>inf\<close> (the literal \<^verbatim>\<open>Infinity\<close>, or a number
    too large such as \<^verbatim>\<open>1e400\<close>), \<^verbatim>\<open>-inf\<close> and \<^verbatim>\<open>nan\<close> (the literal \<^verbatim>\<open>NaN\<close>), all
    of which \<^verbatim>\<open>json.loads\<close> returns.
  \<^item> A \<^verbatim>\<open>str\<close> is modelled by its UTF-8 encoding, one \<open>char\<close> per byte. Python
    counts code points, so the operations that count (\<^verbatim>\<open>len\<close>, \<^verbatim>\<open>s[0]\<close>, iteration)
    group the continuation bytes \<^verbatim>\<open>10xxxxxx\<close> with the byte that starts the code point.
  \<^item> A \<^verbatim>\<open>dict\<close> is an association list in insertion order, with pairwise distinct
    keys as in Python; a key is looked up with \<open>map_of\<close>.
\<close>

datatype pyfloat = Finite rat | NegZero | PosInf | NegInf | NaN

datatype json =
    JNull
  | JBool bool
  | JInt int
  | JFloat pyfloat
  | JStr string
  | JList "json list"
  | JDict "(string \<times> json) list"

text \<open>The exceptions the modelled code can raise.\<close>

datatype error = AttributeError | TypeError | KeyError | IndexError | ValueError | OverflowError

text \<open>Sequencing of fallible steps: the first exception ends the computation.\<close>

definition bind :: "error + 'a \<Rightarrow> ('a \<Rightarrow> error + 'b) \<Rightarrow> error + 'b" where
  "bind m f = (case m of Inl e \<Rightarrow> Inl e | Inr v \<Rightarrow> f v)"

subsection \<open>The Python operations the code applies to document values\<close>

text \<open>
  Truth value testing (\<^verbatim>\<open>if x:\<close>, \<^verbatim>\<open>x or y\<close>, \<^verbatim>\<open>not x\<close>). A \<^verbatim>\<open>float\<close> is false when it
  equals zero: \<^verbatim>\<open>0.0\<close> and \<^verbatim>\<open>-0.0\<close>; \<^verbatim>\<open>inf\<close>, \<^verbatim>\<open>-inf\<close> and \<^verbatim>\<open>nan\<close> are true.
\<close>

fun float_truthy :: "pyfloat \<Rightarrow> bool" where
  "float_truthy (Finite x) = (x \<noteq> 0)"
| "float_truthy NegZero = False"
| "float_truthy PosInf = True"
| "float_truthy NegInf = True"
| "float_truthy NaN = True"

fun truthy :: "json \<Rightarrow> bool" where
  "truthy JNull = False"
| "truthy (JBool b) = b"
| "truthy (JInt i) = (i \<noteq> 0)"
| "truthy (JFloat x) = float_truthy x"
| "truthy (JStr s) = (s \<noteq> [])"
| "truthy (JList xs) = (xs \<noteq> [])"
| "truthy (JDict kvs) = (kvs \<noteq> [])"

text \<open>
  \<^verbatim>\<open>x.get(key, default)\<close>: only a \<^verbatim>\<open>dict\<close> has the method, every other value raises
  \<^verbatim>\<open>AttributeError\<close>. The default is an argument, so the caller evaluates it first.
\<close>

fun py_get :: "json \<Rightarrow> string \<Rightarrow> json \<Rightarrow> error + json" where
  "py_get (JDict kvs) k d = Inr (case map_of kvs k of Some v \<Rightarrow> v | None \<Rightarrow> d)"
| "py_get _ k d = Inl AttributeError"

text \<open>\<^verbatim>\<open>s.startswith(p)\<close> on lists of bytes, and \<^verbatim>\<open>x.startswith(p)\<close> on a document value.\<close>

fun startswith :: "string \<Rightarrow> string \<Rightarrow> bool" where
  "startswith s [] = True"
| "startswith [] (p # ps) = False"
| "startswith (c # cs) (p # ps) = (c = p \<and> startswith cs ps)"

fun py_startswith :: "json \<Rightarrow> string \<Rightarrow> error + bool" where
  "py_startswith (JStr s) p = Inr (startswith s p)"
| "py_startswith _ p = Inl AttributeError"

text \<open>Code points of a UTF-8 string: a continuation byte is \<^verbatim>\<open>10xxxxxx\<close>.\<close>

definition is_cont :: "char \<Rightarrow> bool" where
  "is_cont c = ((of_char c :: nat) div 64 = 2)"

function code_points :: "string \<Rightarrow> string list" where
  "code_points [] = []"
| "code_points (c # cs) = (c # takeWhile is_cont cs) # code_points (dropWhile is_cont cs)"
  by pat_completeness auto
termination
  by (relation "measure length") (auto simp: length_dropWhile_le le_imp_less_Suc)

text \<open>
  \<^verbatim>\<open>x[0]\<close>: the first element of a list, the first code point of a string. A \<^verbatim>\<open>dict\<close> of
  a JSON document has string keys only, so the key \<^verbatim>\<open>0\<close> is never there; the other values
  are not subscriptable.
\<close>

fun py_index0 :: "json \<Rightarrow> error + json" where
  "py_index0 (JList []) = Inl IndexError"
| "py_index0 (JList (x # xs)) = Inr x"
| "py_index0 (JStr s) = (case code_points s of [] \<Rightarrow> Inl IndexError | c # cs \<Rightarrow> Inr (JStr c))"
| "py_index0 (JDict kvs) = Inl KeyError"
| "py_index0 _ = Inl TypeError"

text \<open>
  \<^verbatim>\<open>'key' in x\<close> for a string \<^verbatim>\<open>'key'\<close>: key membership in a \<^verbatim>\<open>dict\<close>, an equal element in a
  list (only a string equals a string), a substring of a string; \<^verbatim>\<open>TypeError\<close> otherwise.
\<close>

fun substring :: "string \<Rightarrow> string \<Rightarrow> bool" where
  "substring n [] = (n = [])"
| "substring n (c # cs) = (startswith (c # cs) n \<or> substring n cs)"

fun py_contains :: "string \<Rightarrow> json \<Rightarrow> error + bool" where
  "py_contains k (JDict kvs) = Inr (map_of kvs k \<noteq> None)"
| "py_contains k (JList xs) = Inr (JStr k \<in> set xs)"
| "py_contains k (JStr s) = Inr (substring k s)"
| "py_contains k _ = Inl TypeError"

section \<open>Schema version classifier (\<^verbatim>\<open>detect_schema_version\<close>, lines 20-33)\<close>

text \<open>
  The tags are the strings the source returns: \<^verbatim>\<open>'5.0'\<close> (the current family) and
  \<^verbatim>\<open>'4.0'\<close> (the legacy one).
  \<^verbatim>\<open>
  schema_version = data.get('report_info', {}).get('schema_version', '')
  if schema_version.startswith('5.'): return '5.0'
  if data.get('recurring_payments') or data.get('non_bank_financing'): return '5.0'
  accounts = data.get('accounts', [])
  if accounts:
      monthly = accounts[0].get('monthly_summary', [])
      if monthly and 'highest_intraday' in monthly[0]: return '5.0'
  return '4.0'
  \<close>
\<close>

definition detect_schema_version :: "json \<Rightarrow> error + string" where
  "detect_schema_version data =
     bind (py_get data ''report_info'' (JDict [])) (\<lambda>report_info.
     bind (py_get report_info ''schema_version'' (JStr [])) (\<lambda>schema_version.
     bind (py_startswith schema_version ''5.'') (\<lambda>is5.
     if is5 then Inr ''5.0''
     else
       bind (py_get data ''recurring_payments'' JNull) (\<lambda>recurring.
       bind (if truthy recurring then Inr recurring
             else py_get data ''non_bank_financing'' JNull) (\<lambda>either.
       if truthy either then Inr ''5.0''
       else
         bind (py_get data ''accounts'' (JList [])) (\<lambda>accounts.
         if truthy accounts then
           bind (py_index0 accounts) (\<lambda>first_account.
           bind (py_get first_account ''monthly_summary'' (JList [])) (\<lambda>monthly.
           if truthy monthly then
             bind (py_index0 monthly) (\<lambda>first_month.
             bind (py_contains ''highest_intraday'' first_month) (\<lambda>has_intraday.
             if has_intraday then Inr ''5.0'' else Inr ''4.0''))
           else Inr ''4.0''))
         else Inr ''4.0''))))))"

section \<open>Field resolver: monthly high and low balance (lines 35-45)\<close>

text \<open>
  \<^verbatim>\<open>
  def get_monthly_high(m, schema_version):
      if schema_version == '5.0':
          return m.get('highest_intraday', m.get('highest', 0))
      return m.get('highest', m.get('highest_intraday', 0))
  \<close>
  and the same for \<^verbatim>\<open>get_monthly_low\<close> with \<^verbatim>\<open>lowest\<close>. The inner \<^verbatim>\<open>get\<close> is the default
  argument of the outer one, so it runs first.
\<close>

definition get_monthly_high :: "json \<Rightarrow> string \<Rightarrow> error + json" where
  "get_monthly_high m schema_version =
     (if schema_version = ''5.0''
      then bind (py_get m ''highest'' (JInt 0)) (\<lambda>d. py_get m ''highest_intraday'' d)
      else bind (py_get m ''highest_intraday'' (JInt 0)) (\<lambda>d. py_get m ''highest'' d))"

definition get_monthly_low :: "json \<Rightarrow> string \<Rightarrow> error + json" where
  "get_monthly_low m schema_version =
     (if schema_version = ''5.0''
      then bind (py_get m ''lowest'' (JInt 0)) (\<lambda>d. py_get m ''lowest_intraday'' d)
      else bind (py_get m ''lowest_intraday'' (JInt 0)) (\<lambda>d. py_get m ''lowest'' d))"

section \<open>More Python operations\<close>

text \<open>
  \<^verbatim>\<open>x.get(key, e)\<close> where the default \<^verbatim>\<open>e\<close> is itself an expression that can raise:
  Python looks the method up on \<^verbatim>\<open>x\<close> first, then evaluates \<^verbatim>\<open>e\<close> (always, whether
  or not the key is there), then performs the lookup.
\<close>

fun py_get_eval :: "json \<Rightarrow> string \<Rightarrow> error + json \<Rightarrow> error + json" where
  "py_get_eval (JDict kvs) k dflt =
     bind dflt (\<lambda>d. Inr (case map_of kvs k of Some v \<Rightarrow> v | None \<Rightarrow> d))"
| "py_get_eval _ k dflt = Inl AttributeError"

text \<open>\<^verbatim>\<open>len(x)\<close>, \<^verbatim>\<open>x[i]\<close> for \<open>i \<ge> 0\<close>, and the elements a \<^verbatim>\<open>for\<close> loop over \<^verbatim>\<open>x\<close> visits.\<close>

fun py_len :: "json \<Rightarrow> error + int" where
  "py_len (JList xs) = Inr (int (length xs))"
| "py_len (JStr s) = Inr (int (length (code_points s)))"
| "py_len (JDict kvs) = Inr (int (length kvs))"
| "py_len _ = Inl TypeError"

fun py_index :: "json \<Rightarrow> nat \<Rightarrow> error + json" where
  "py_index (JList xs) i = (if i < length xs then Inr (xs ! i) else Inl IndexError)"
| "py_index (JStr s) i =
     (if i < length (code_points s) then Inr (JStr (code_points s ! i)) else Inl IndexError)"
| "py_index (JDict kvs) i = Inl KeyError"
| "py_index _ i = Inl TypeError"

fun py_iter :: "json \<Rightarrow> error + json list" where
  "py_iter (JList xs) = Inr xs"
| "py_iter (JStr s) = Inr (map JStr (code_points s))"
| "py_iter (JDict kvs) = Inr (map (\<lambda>kv. JStr (fst kv)) kvs)"
| "py_iter _ = Inl TypeError"

text \<open>
  Numbers. \<^verbatim>\<open>bool\<close> is a subclass of \<^verbatim>\<open>int\<close>; \<^verbatim>\<open>int\<close>, \<^verbatim>\<open>bool\<close> and \<^verbatim>\<open>float\<close> compare by
  their exact values, and a number never equals a string or \<^verbatim>\<open>None\<close>. \<open>num_val x\<close> is
  the rational value of a number that has one (\<^verbatim>\<open>-0.0\<close> has the value 0); \<^verbatim>\<open>inf\<close>,
  \<^verbatim>\<open>-inf\<close> and \<^verbatim>\<open>nan\<close> have none.

  \<open>scalar_eq y x\<close> is the comparison a set applies to two hashable values, \<^verbatim>\<open>y is x or
  y == x\<close>: numbers with a rational value by that value, \<^verbatim>\<open>inf\<close> equal to \<^verbatim>\<open>inf\<close> only and
  \<^verbatim>\<open>-inf\<close> to \<^verbatim>\<open>-inf\<close> only; \<^verbatim>\<open>nan == nan\<close> is false, but \<^verbatim>\<open>json.loads\<close> returns the one
  object \<^verbatim>\<open>json.decoder.NaN\<close> for every \<^verbatim>\<open>NaN\<close> of a document, so that two of them are
  identical.

  \<open>py_gt x k\<close> is \<^verbatim>\<open>x > k\<close> for an integer literal \<open>k\<close>, which raises \<^verbatim>\<open>TypeError\<close> unless
  \<^verbatim>\<open>x\<close> is a number; \<^verbatim>\<open>inf\<close> is greater than every integer, \<^verbatim>\<open>-inf\<close> is not, and every
  comparison with \<^verbatim>\<open>nan\<close> is false.
\<close>

fun num_val :: "json \<Rightarrow> rat option" where
  "num_val (JBool b) = Some (if b then 1 else 0)"
| "num_val (JInt i) = Some (of_int i)"
| "num_val (JFloat (Finite x)) = Some x"
| "num_val (JFloat NegZero) = Some 0"
| "num_val _ = None"

definition scalar_eq :: "json \<Rightarrow> json \<Rightarrow> bool" where
  "scalar_eq a b =
     (case (num_val a, num_val b) of
        (Some x, Some y) \<Rightarrow> x = y
      | (None, None) \<Rightarrow> a = b
      | _ \<Rightarrow> False)"

definition py_gt :: "json \<Rightarrow> int \<Rightarrow> error + bool" where
  "py_gt x k =
     (if x = JFloat PosInf then Inr True
      else if x = JFloat NegInf \<or> x = JFloat NaN then Inr False
      else case num_val x of Some v \<Rightarrow> Inr (of_int k < v) | None \<Rightarrow> Inl TypeError)"

fun hashable :: "json \<Rightarrow> bool" where
  "hashable (JList xs) = False"
| "hashable (JDict kvs) = False"
| "hashable _ = True"

text \<open>
  Text of a value. \<^verbatim>\<open>{x}\<close> in an f-string is \<^verbatim>\<open>str(x)\<close>: a string is itself, and the
  decimal digits of an \<^verbatim>\<open>int\<close>, \<^verbatim>\<open>True\<close>, \<^verbatim>\<open>False\<close> and \<^verbatim>\<open>None\<close> are written out here. The
  text of a \<^verbatim>\<open>float\<close> (its shortest round-trip representation), of a list and of a
  \<^verbatim>\<open>dict\<close> is the interpreter's \<^verbatim>\<open>repr\<close>, which is a parameter \<open>repr\<close> of every
  definition that formats a value: each theorem holds whatever that function is.
\<close>

fun dec :: "nat \<Rightarrow> string" where
  "dec n = (if n < 10 then [''0123456789'' ! n]
            else dec (n div 10) @ [''0123456789'' ! (n mod 10)])"

declare dec.simps [simp del]

definition int_text :: "int \<Rightarrow> string" where
  "int_text i = (if i < 0 then ''-'' @ dec (nat (- i)) else dec (nat i))"

fun py_str :: "(json \<Rightarrow> string) \<Rightarrow> json \<Rightarrow> string" where
  "py_str repr (JStr s) = s"
| "py_str repr (JInt i) = int_text i"
| "py_str repr (JBool b) = (if b then ''True'' else ''False'')"
| "py_str repr JNull = ''None''"
| "py_str repr v = repr v"

text \<open>
  \<^verbatim>\<open>{x:.0f}\<close>: a finite \<^verbatim>\<open>float\<close> is rounded to the nearest integer, ties to even, and
  keeps its sign (\<^verbatim>\<open>-0.3\<close> and \<^verbatim>\<open>-0.0\<close> give \<^verbatim>\<open>-0\<close>); \<^verbatim>\<open>inf\<close>, \<^verbatim>\<open>-inf\<close> and \<^verbatim>\<open>nan\<close> are
  written by name; an \<^verbatim>\<open>int\<close> or \<^verbatim>\<open>bool\<close> is converted with \<^verbatim>\<open>float(x)\<close> first, which
  rounds to 53 significant bits (ties to even) and raises \<^verbatim>\<open>OverflowError\<close> from \<open>2^1024\<close>
  on; a string raises \<^verbatim>\<open>ValueError\<close>, and \<^verbatim>\<open>None\<close>, a list and a \<^verbatim>\<open>dict\<close> raise
  \<^verbatim>\<open>TypeError\<close>.
\<close>

definition round_half_even :: "rat \<Rightarrow> int" where
  "round_half_even x =
     (let f = \<lfloor>x\<rfloor>; d = x - of_int f
      in if d < 1 / 2 then f else if 1 / 2 < d then f + 1 else if even f then f else f + 1)"

definition float_of_int :: "int \<Rightarrow> error + rat" where
  "float_of_int i =
     (let n = \<bar>i\<bar> in
      if n < 2 ^ 53 then Inr (of_int i)
      else
        let e = nat (bitlen n) - 53;
            q = n div 2 ^ e;
            r = n mod 2 ^ e;
            h = 2 ^ (e - 1);
            q' = (if h < r \<or> (r = h \<and> odd q) then q + 1 else q);
            v = q' * 2 ^ e
        in if 2 ^ 1024 \<le> v then Inl OverflowError else Inr (of_int (sgn i * v)))"

definition format_0f_float :: "rat \<Rightarrow> string" where
  "format_0f_float x = (if x < 0 then ''-'' else []) @ dec (nat (round_half_even \<bar>x\<bar>))"

fun format_0f_pyfloat :: "pyfloat \<Rightarrow> string" where
  "format_0f_pyfloat (Finite x) = format_0f_float x"
| "format_0f_pyfloat NegZero = ''-0''"
| "format_0f_pyfloat PosInf = ''inf''"
| "format_0f_pyfloat NegInf = ''-inf''"
| "format_0f_pyfloat NaN = ''nan''"

fun format_0f :: "json \<Rightarrow> error + string" where
  "format_0f (JFloat x) = Inr (format_0f_pyfloat x)"
| "format_0f (JInt i) = bind (float_of_int i) (\<lambda>x. Inr (format_0f_float x))"
| "format_0f (JBool b) = Inr (if b then ''1'' else ''0'')"
| "format_0f (JStr s) = Inl ValueError"
| "format_0f _ = Inl TypeError"

section \<open>Inter-account transfers (\<^verbatim>\<open>generate_interactive_html\<close>, lines 720-727)\<close>

text \<open>
  \<^verbatim>\<open>
  matched = inter_account.get('matched_transfers', {})
  unverified = inter_account.get('unverified_transfers', {})
  summary = inter_account.get('summary', {})
  inter_transfers = matched.get('all_transfers',
      matched.get('top_10_transfers', inter_account.get('transfers', [])))
  inter_count = summary.get('total_count',
      inter_account.get('detected_count', len(inter_transfers)))
  inter_total = summary.get('total_amount', inter_account.get('total_amount', 0))
  \<close>
\<close>

record inter_account_resolved =
  inter_transfers :: json
  inter_count :: json
  inter_total :: json

definition resolve_inter_account :: "json \<Rightarrow> error + inter_account_resolved" where
  "resolve_inter_account inter_account =
     bind (py_get inter_account ''matched_transfers'' (JDict [])) (\<lambda>matched.
     bind (py_get inter_account ''unverified_transfers'' (JDict [])) (\<lambda>unverified.
     bind (py_get inter_account ''summary'' (JDict [])) (\<lambda>summary.
     bind (py_get_eval matched ''all_transfers''
            (py_get_eval matched ''top_10_transfers''
              (py_get inter_account ''transfers'' (JList [])))) (\<lambda>transfers.
     bind (py_get_eval summary ''total_count''
            (py_get_eval inter_account ''detected_count''
              (bind (py_len transfers) (\<lambda>n. Inr (JInt n))))) (\<lambda>count.
     bind (py_get_eval summary ''total_amount''
            (py_get inter_account ''total_amount'' (JInt 0))) (\<lambda>total.
     Inr \<lparr>inter_transfers = transfers, inter_count = count, inter_total = total\<rparr>))))))"

section \<open>Non-bank financing sources (lines 532, 548-555)\<close>

text \<open>
  \<^verbatim>\<open>
  nb_sources = non_bank.get('sources', [])
  seen_amounts = set()
  unique_sources = []
  for s in nb_sources:
      amount = s.get('total_inflow', 0)
      if amount not in seen_amounts:
          seen_amounts.add(amount)
          unique_sources.append(s)
  \<close>
  The set is modelled by the list of the values added to it. Membership hashes the
  value first, which raises \<^verbatim>\<open>TypeError\<close> for a list or a \<^verbatim>\<open>dict\<close>, and then looks for
  an element that is the value or \<^verbatim>\<open>==\<close> to it (\<open>scalar_eq\<close>).
\<close>

definition set_contains :: "json list \<Rightarrow> json \<Rightarrow> error + bool" where
  "set_contains seen x =
     (if hashable x then Inr (\<exists>y \<in> set seen. scalar_eq y x) else Inl TypeError)"

fun unique_sources_loop :: "json list \<Rightarrow> json list \<Rightarrow> json list \<Rightarrow> error + json list" where
  "unique_sources_loop [] seen_amounts unique_sources = Inr unique_sources"
| "unique_sources_loop (s # rest) seen_amounts unique_sources =
     (case py_get s ''total_inflow'' (JInt 0) of
        Inl e \<Rightarrow> Inl e
      | Inr amount \<Rightarrow>
          (case set_contains seen_amounts amount of
             Inl e \<Rightarrow> Inl e
           | Inr found \<Rightarrow>
               if \<not> found
               then unique_sources_loop rest (seen_amounts @ [amount]) (unique_sources @ [s])
               else unique_sources_loop rest seen_amounts unique_sources))"

definition unique_sources :: "json \<Rightarrow> error + json list" where
  "unique_sources non_bank =
     bind (py_get non_bank ''sources'' (JList [])) (\<lambda>nb_sources.
     bind (py_iter nb_sources) (\<lambda>sources.
     unique_sources_loop sources [] []))"

text \<open>
  The reading of the specification: a source is kept unless an earlier source has an
  equal inflow amount, and the kept sources stay in their order.
\<close>

definition inflow :: "json \<Rightarrow> json" where
  "inflow s = (case s of
       JDict kvs \<Rightarrow> (case map_of kvs ''total_inflow'' of Some v \<Rightarrow> v | None \<Rightarrow> JInt 0)
     | _ \<Rightarrow> JNull)"

fun first_seen_spec :: "json list \<Rightarrow> json list" where
  "first_seen_spec [] = []"
| "first_seen_spec (s # rest) =
     s # first_seen_spec (filter (\<lambda>t. \<not> scalar_eq (inflow t) (inflow s)) rest)"

section \<open>Volatility alerts (lines 323-331)\<close>

text \<open>
  \<^verbatim>\<open>
  vol_alerts = volatility.get('alerts', [])
  if not vol_alerts:
      for a in accounts:
          for m in a.get('monthly_summary', []):
              vl = m.get('volatility_level', 'LOW')
              vpct = m.get('volatility_pct', 0)
              month_name = m.get('month_name', m.get('month', ''))
              if vl in ['HIGH', 'EXTREME']:
                  vol_alerts.append(
                    f"{month_name} ({a.get('bank_name','')}): {vpct:.0f}% volatility - {vl}")
  \<close>
  \<^verbatim>\<open>vol_alerts\<close> is the loop's state. \<open>py_append x\<close> is the bound method \<^verbatim>\<open>x.append\<close>, which
  only a list has. Python looks the method up before it evaluates the argument: when the
  supplied value is false but not a list (\<^verbatim>\<open>null\<close>, \<^verbatim>\<open>""\<close>, \<^verbatim>\<open>{}\<close>, \<^verbatim>\<open>0\<close>, \<^verbatim>\<open>false\<close>), the
  first alert raises \<^verbatim>\<open>AttributeError\<close> before its line is formatted. The definitions
  cover lines 323-331, the value of \<^verbatim>\<open>vol_alerts\<close> after the loop.
\<close>

fun py_append :: "json \<Rightarrow> error + (json \<Rightarrow> json)" where
  "py_append (JList xs) = Inr (\<lambda>x. JList (xs @ [x]))"
| "py_append _ = Inl AttributeError"

definition alert_line :: "(json \<Rightarrow> string) \<Rightarrow> json \<Rightarrow> json \<Rightarrow> json \<Rightarrow> json \<Rightarrow> error + string" where
  "alert_line repr month_name a vpct vl =
     bind (py_get a ''bank_name'' (JStr [])) (\<lambda>bank_name.
     bind (format_0f vpct) (\<lambda>pct.
     Inr (py_str repr month_name @ '' ('' @ py_str repr bank_name @ ''): '' @ pct
          @ ''% volatility - '' @ py_str repr vl)))"

fun alerts_of_months :: "(json \<Rightarrow> string) \<Rightarrow> json \<Rightarrow> json list \<Rightarrow> json \<Rightarrow> error + json" where
  "alerts_of_months repr a [] vol_alerts = Inr vol_alerts"
| "alerts_of_months repr a (m # rest) vol_alerts =
     (case py_get m ''volatility_level'' (JStr ''LOW'') of
        Inl e \<Rightarrow> Inl e
      | Inr vl \<Rightarrow>
     (case py_get m ''volatility_pct'' (JInt 0) of
        Inl e \<Rightarrow> Inl e
      | Inr vpct \<Rightarrow>
     (case py_get_eval m ''month_name'' (py_get m ''month'' (JStr [])) of
        Inl e \<Rightarrow> Inl e
      | Inr month_name \<Rightarrow>
          if vl = JStr ''HIGH'' \<or> vl = JStr ''EXTREME''
          then (case py_append vol_alerts of
                  Inl e \<Rightarrow> Inl e
                | Inr append_to \<Rightarrow>
                    (case alert_line repr month_name a vpct vl of
                       Inl e \<Rightarrow> Inl e
                     | Inr line \<Rightarrow> alerts_of_months repr a rest (append_to (JStr line))))
          else alerts_of_months repr a rest vol_alerts)))"

fun alerts_of_accounts :: "(json \<Rightarrow> string) \<Rightarrow> json list \<Rightarrow> json \<Rightarrow> error + json" where
  "alerts_of_accounts repr [] vol_alerts = Inr vol_alerts"
| "alerts_of_accounts repr (a # rest) vol_alerts =
     (case py_get a ''monthly_summary'' (JList []) of
        Inl e \<Rightarrow> Inl e
      | Inr monthly_summary \<Rightarrow>
     (case py_iter monthly_summary of
        Inl e \<Rightarrow> Inl e
      | Inr months \<Rightarrow>
     (case alerts_of_months repr a months vol_alerts of
        Inl e \<Rightarrow> Inl e
      | Inr vol_alerts' \<Rightarrow> alerts_of_accounts repr rest vol_alerts')))"

definition vol_alerts :: "(json \<Rightarrow> string) \<Rightarrow> json \<Rightarrow> json \<Rightarrow> error + json" where
  "vol_alerts repr volatility accounts =
     bind (py_get volatility ''alerts'' (JList [])) (\<lambda>supplied.
     if \<not> truthy supplied
     then bind (py_iter accounts) (\<lambda>accs. alerts_of_accounts repr accs supplied)
     else Inr supplied)"

text \<open>
  The reading of the specification: one line per account-month whose volatility level
  is \<^verbatim>\<open>HIGH\<close> or \<^verbatim>\<open>EXTREME\<close>, in account-then-month order, each of the form
  \<^verbatim>\<open>{month} ({bank}): {pct}% volatility - {level}\<close>. \<open>field x k d\<close> is the value of
  \<^verbatim>\<open>x.get(k, d)\<close> for a keyed \<open>x\<close>.
\<close>

definition field :: "json \<Rightarrow> string \<Rightarrow> json \<Rightarrow> json" where
  "field x k d = (case py_get x k d of Inr v \<Rightarrow> v | Inl e \<Rightarrow> d)"






section \<open>Kite-flying indicator rows (lines 115, 120, 287-320)\<close>

text \<open>
  The three branches format a row with the same f-string; only the cells differ:
  \<^verbatim>\<open>
  f'<tr><td>{ind}</td><td><span class="volatility-badge volatility-{status_class}">
  {status}</span></td><td class="mono text-right">{pts}</td><td>{finding}</td></tr>'
  \<close>
  (one line in the source). \<open>kite_row\<close> takes the texts of the cells.
\<close>

definition kite_row :: "string \<Rightarrow> string \<Rightarrow> string \<Rightarrow> string \<Rightarrow> string \<Rightarrow> string" where
  \<open>kite_row ind status_class status pts finding =
     ''<tr><td>'' @ ind @ ''</td><td><span class="volatility-badge volatility-'' @ status_class
     @ ''">'' @ status @ ''</span></td><td class="mono text-right">'' @ pts @ ''</td><td>''
     @ finding @ ''</td></tr>''\<close>

text \<open>
  First branch, the body of \<^verbatim>\<open>for i in kite_indicators\<close> (lines 294-296):
  \<^verbatim>\<open>
  status = i.get("status", "PASS")
  status_class = "LOW" if status == "PASS" else
                 "MODERATE" if status in ["MONITOR", "WARNING"] else "EXTREME"
  kite_rows += f'...{i.get("indicator","")}...{status}...{i.get("points",0)}...{i.get("finding","")}...'
  \<close>
\<close>

definition structured_row :: "(json \<Rightarrow> string) \<Rightarrow> json \<Rightarrow> error + string" where
  "structured_row repr i =
     bind (py_get i ''status'' (JStr ''PASS'')) (\<lambda>status.
     bind (py_get i ''indicator'' (JStr [])) (\<lambda>indicator.
     bind (py_get i ''points'' (JInt 0)) (\<lambda>points.
     bind (py_get i ''finding'' (JStr [])) (\<lambda>finding.
     Inr (kite_row (py_str repr indicator)
            (if status = JStr ''PASS'' then ''LOW''
             else if status = JStr ''MONITOR'' \<or> status = JStr ''WARNING'' then ''MODERATE''
             else ''EXTREME'')
            (py_str repr status) (py_str repr points) (py_str repr finding))))))"

fun structured_rows :: "(json \<Rightarrow> string) \<Rightarrow> json list \<Rightarrow> string \<Rightarrow> error + string" where
  "structured_rows repr [] kite_rows = Inr kite_rows"
| "structured_rows repr (i # rest) kite_rows =
     (case structured_row repr i of
        Inl e \<Rightarrow> Inl e
      | Inr row \<Rightarrow> structured_rows repr rest (kite_rows @ row))"

text \<open>
  Second branch, the body of \<^verbatim>\<open>for idx, indicator_str in enumerate(kite_indicators)\<close>
  (lines 301-305):
  \<^verbatim>\<open>
  finding = detailed_findings[idx] if idx < len(detailed_findings) else indicator_str
  status = "WARNING" if kite_score > 0 else "PASS"
  status_class = "MODERATE" if status == "WARNING" else "LOW"
  kite_rows += f'...{indicator_str}...{status}...-...{finding}...'
  \<close>
\<close>

definition string_row :: "(json \<Rightarrow> string) \<Rightarrow> json \<Rightarrow> json \<Rightarrow> nat \<Rightarrow> json \<Rightarrow> error + string" where
  "string_row repr kite_score detailed_findings idx indicator_str =
     bind (py_len detailed_findings) (\<lambda>n.
     bind (if int idx < n then py_index detailed_findings idx else Inr indicator_str) (\<lambda>finding.
     bind (py_gt kite_score 0) (\<lambda>positive.
     Inr (kite_row (py_str repr indicator_str)
            (if positive then ''MODERATE'' else ''LOW'')
            (if positive then ''WARNING'' else ''PASS'')
            ''-'' (py_str repr finding)))))"

fun string_rows ::
  "(json \<Rightarrow> string) \<Rightarrow> json \<Rightarrow> json \<Rightarrow> nat \<Rightarrow> json list \<Rightarrow> string \<Rightarrow> error + string" where
  "string_rows repr kite_score detailed_findings idx [] kite_rows = Inr kite_rows"
| "string_rows repr kite_score detailed_findings idx (indicator_str # rest) kite_rows =
     (case string_row repr kite_score detailed_findings idx indicator_str of
        Inl e \<Rightarrow> Inl e
      | Inr row \<Rightarrow>
          string_rows repr kite_score detailed_findings (Suc idx) rest (kite_rows @ row))"

text \<open>
  The default indicators (lines 309-320). \<open>arrow\<close> is the character U+2192 of the first
  finding.
\<close>

definition arrow :: string where
  "arrow = [CHR 0xE2, CHR 0x86, CHR 0x92]"

definition default_indicators ::
  "(json \<Rightarrow> string) \<Rightarrow> json \<Rightarrow> error + (string \<times> string \<times> int \<times> string) list" where
  "default_indicators repr round_count =
     bind (py_gt round_count 5) (\<lambda>many.
     Inr [(''Circular Transfers'', ''PASS'', 0,
             ''No A'' @ arrow @ ''B'' @ arrow @ ''A patterns detected''),
          (''Month-End Concentration'', ''PASS'', 0, ''Normal distribution''),
          (''Round Amount Patterns'', if many then ''WARNING'' else ''PASS'',
             if many then 2 else 0,
             py_str repr round_count @ '' round figure transactions''),
          (''Timing Exploitation'', ''PASS'', 0, ''No suspicious timing patterns''),
          (''Suspicious Balance Spikes'', ''PASS'', 0,
             ''Balance movements within normal range''),
          (''Same Amount In/Out'', ''PASS'', 0, ''No matching in/out amounts detected''),
          (''Vague Descriptions'', ''PASS'', 0, ''Transaction descriptions are clear'')])"

definition default_row :: "string \<times> string \<times> int \<times> string \<Rightarrow> string" where
  "default_row entry =
     (case entry of (ind, status, pts, finding) \<Rightarrow>
        kite_row ind
          (if status = ''PASS'' then ''LOW''
           else if status = ''WARNING'' then ''MODERATE'' else ''EXTREME'')
          status (int_text pts) finding)"

definition default_rows :: "(json \<Rightarrow> string) \<Rightarrow> json \<Rightarrow> error + string" where
  "default_rows repr round_count =
     bind (default_indicators repr round_count) (\<lambda>entries.
     Inr (concat (map default_row entries)))"

text \<open>
  The choice between the branches (lines 287-307), with \<^verbatim>\<open>kite_score\<close> read on line 115:
  \<^verbatim>\<open>
  kite_score = kite.get('risk_score', 0)
  kite_indicators = kite.get('indicators', [])
  kite_rows = ""
  if kite_indicators and isinstance(kite_indicators[0], dict): ...
  elif kite_indicators and isinstance(kite_indicators[0], str):
      detailed_findings = kite.get('detailed_findings', []) ...
  if not kite_rows: ...
  \<close>
\<close>

fun is_dict :: "json \<Rightarrow> bool" where
  "is_dict (JDict kvs) = True"
| "is_dict _ = False"

fun is_str :: "json \<Rightarrow> bool" where
  "is_str (JStr s) = True"
| "is_str _ = False"

definition first_is :: "(json \<Rightarrow> bool) \<Rightarrow> json \<Rightarrow> error + bool" where
  "first_is isinstance xs =
     (if truthy xs then bind (py_index0 xs) (\<lambda>first. Inr (isinstance first)) else Inr False)"

definition kite_rows :: "(json \<Rightarrow> string) \<Rightarrow> json \<Rightarrow> json \<Rightarrow> error + string" where
  "kite_rows repr kite round_count =
     bind (py_get kite ''risk_score'' (JInt 0)) (\<lambda>kite_score.
     bind (py_get kite ''indicators'' (JList [])) (\<lambda>kite_indicators.
     bind (first_is is_dict kite_indicators) (\<lambda>dicts.
     bind (if dicts
           then bind (py_iter kite_indicators) (\<lambda>items. structured_rows repr items [])
           else
             bind (first_is is_str kite_indicators) (\<lambda>strs.
             if strs
             then bind (py_get kite ''detailed_findings'' (JList [])) (\<lambda>detailed_findings.
                  bind (py_iter kite_indicators) (\<lambda>items.
                  string_rows repr kite_score detailed_findings 0 items []))
             else Inr [])) (\<lambda>rows.
     if rows = [] then default_rows repr round_count else Inr rows))))"

text \<open>
  The rows as the claim describes them: a structured row reads its four cells by key;
  a string-form row shows the element itself, a status that is the same for every row,
  a dash for the points, and the detailed finding at the same position if there is one,
  else the element again.
\<close>

definition structured_row_spec :: "(json \<Rightarrow> string) \<Rightarrow> json \<Rightarrow> string" where
  "structured_row_spec repr i =
     kite_row (py_str repr (field i ''indicator'' (JStr [])))
       (if field i ''status'' (JStr ''PASS'') = JStr ''PASS'' then ''LOW''
        else if field i ''status'' (JStr ''PASS'') = JStr ''MONITOR''
                \<or> field i ''status'' (JStr ''PASS'') = JStr ''WARNING'' then ''MODERATE''
        else ''EXTREME'')
       (py_str repr (field i ''status'' (JStr ''PASS'')))
       (py_str repr (field i ''points'' (JInt 0)))
       (py_str repr (field i ''finding'' (JStr [])))"

definition string_row_spec ::
  "(json \<Rightarrow> string) \<Rightarrow> bool \<Rightarrow> json list \<Rightarrow> nat \<times> json \<Rightarrow> string" where
  "string_row_spec repr positive findings entry =
     (case entry of (idx, indicator_str) \<Rightarrow>
        kite_row (py_str repr indicator_str)
          (if positive then ''MODERATE'' else ''LOW'')
          (if positive then ''WARNING'' else ''PASS'')
          ''-''
          (py_str repr (if idx < length findings then findings ! idx else indicator_str)))"

section \<open>Optional sections and the navigation (lines 96-98, 615-616, 753-756, 929-942)\<close>

text \<open>
  \<^verbatim>\<open>
  counterparty_nav = '<button class="nav-tab" data-tab="counterparties"
      onclick="showTab(\'counterparties\')">... Counterparties</button>' if counterparties else ''
  \<close>
  and the same for \<^verbatim>\<open>recurring_nav\<close> and \<^verbatim>\<open>nonbank_nav\<close>. Every button of the navigation has
  this shape, so it is written once; the labels start with a pictograph, given by its
  UTF-8 bytes.
\<close>

definition nav_button :: "string \<Rightarrow> string \<Rightarrow> string \<Rightarrow> string" where
  \<open>nav_button cls tab label =
     ''<button class="'' @ cls @ ''" data-tab="'' @ tab @ ''" onclick="showTab('' @ [CHR 0x27]
     @ tab @ [CHR 0x27] @ '')">'' @ label @ ''</button>''\<close>

definition recurring_nav :: "json \<Rightarrow> string" where
  "recurring_nav recurring =
     (if truthy recurring
      then nav_button ''nav-tab'' ''recurring''
             ([CHR 0xF0, CHR 0x9F, CHR 0x93, CHR 0x8B] @ '' Recurring'')
      else [])"

definition nonbank_nav :: "json \<Rightarrow> string" where
  "nonbank_nav non_bank =
     (if truthy non_bank
      then nav_button ''nav-tab'' ''nonbank''
             ([CHR 0xF0, CHR 0x9F, CHR 0x8F, CHR 0xA6] @ '' Non-Bank'')
      else [])"

definition counterparty_nav :: "json \<Rightarrow> string" where
  "counterparty_nav counterparties =
     (if truthy counterparties
      then nav_button ''nav-tab'' ''counterparties''
             ([CHR 0xF0, CHR 0x9F, CHR 0x91, CHR 0xA5] @ '' Counterparties'')
      else [])"

text \<open>
  The navigation block of the template (lines 929-942), with its three slots. Each
  line is indented by twelve blanks and ends with a line feed.
\<close>

definition nav_line :: "string \<Rightarrow> string" where
  "nav_line s = ''            '' @ s @ [CHR 0x0A]"

definition nav_tabs :: "json \<Rightarrow> json \<Rightarrow> json \<Rightarrow> string" where
  \<open>nav_tabs recurring non_bank counterparties =
     ''        <div class="nav-tabs">'' @ [CHR 0x0A]
     @ nav_line (nav_button ''nav-tab active'' ''overview''
                  ([CHR 0xF0, CHR 0x9F, CHR 0x93, CHR 0x8A] @ '' Overview''))
     @ nav_line (nav_button ''nav-tab'' ''accounts''
                  ([CHR 0xF0, CHR 0x9F, CHR 0x8F, CHR 0xA6] @ '' Accounts''))
     @ nav_line (nav_button ''nav-tab'' ''turnover''
                  ([CHR 0xF0, CHR 0x9F, CHR 0x92, CHR 0xB0] @ '' Turnover''))
     @ nav_line (nav_button ''nav-tab'' ''categories''
                  ([CHR 0xF0, CHR 0x9F, CHR 0x93, CHR 0x81] @ '' Categories''))
     @ nav_line (counterparty_nav counterparties)
     @ nav_line (nav_button ''nav-tab'' ''volatility''
                  ([CHR 0xF0, CHR 0x9F, CHR 0x93, CHR 0x88] @ '' Volatility''))
     @ nav_line (nav_button ''nav-tab'' ''flags''
                  ([CHR 0xF0, CHR 0x9F, CHR 0x9A, CHR 0xA9] @ '' Flags''))
     @ nav_line (nav_button ''nav-tab'' ''integrity''
                  ([CHR 0xE2, CHR 0x9C, CHR 0x93] @ '' Integrity''))
     @ nav_line (nav_button ''nav-tab'' ''related''
                  ([CHR 0xF0, CHR 0x9F, CHR 0x91, CHR 0xA5] @ '' Related''))
     @ nav_line (recurring_nav recurring)
     @ nav_line (nonbank_nav non_bank)
     @ nav_line (nav_button ''nav-tab'' ''recommendations''
                  ([CHR 0xE2, CHR 0x9C, CHR 0x85] @ '' Recs''))
     @ ''        </div>''\<close>

text \<open>
  The counterparty section (lines 615-699):
  \<^verbatim>\<open>
  counterparty_tab = ""
  if counterparties:
      ...
      counterparty_tab = f'''
      <div id="tab-counterparties" class="tab-content"> ... </div>'''
  \<close>
  The markup built under the \<^verbatim>\<open>if\<close> (lines 617-699, which can also raise) is the
  parameter \<open>section_markup\<close>: what is modelled is when it is built at all.
\<close>

definition counterparty_tab :: "(json \<Rightarrow> error + string) \<Rightarrow> json \<Rightarrow> error + string" where
  "counterparty_tab section_markup counterparties =
     (if truthy counterparties then section_markup counterparties else Inr [])"

text \<open>
  The three optional entities as \<^verbatim>\<open>generate_interactive_html\<close> reads them (lines 96-98):
  \<^verbatim>\<open>data.get('recurring_payments', {})\<close>, \<^verbatim>\<open>data.get('non_bank_financing', {})\<close> and
  \<^verbatim>\<open>data.get('counterparties', {})\<close>.
\<close>

definition navigation :: "json \<Rightarrow> error + string" where
  "navigation data =
     bind (py_get data ''recurring_payments'' (JDict [])) (\<lambda>recurring.
     bind (py_get data ''non_bank_financing'' (JDict [])) (\<lambda>non_bank.
     bind (py_get data ''counterparties'' (JDict [])) (\<lambda>counterparties.
     Inr (nav_tabs recurring non_bank counterparties))))"

definition counterparty_section :: "(json \<Rightarrow> error + string) \<Rightarrow> json \<Rightarrow> error + string" where
  "counterparty_section section_markup data =
     bind (py_get data ''counterparties'' (JDict [])) (\<lambda>counterparties.
     counterparty_tab section_markup counterparties)"

section \<open>Interpolated text and embedded data (lines 101, 252, 270-277, 342-347, 764)\<close>

text \<open>
  The title line of the template, and the list items of the positive observations:
  \<^verbatim>\<open>
  company = r.get('company_name', 'Company')
      <title>Bank Statement Analysis v5.0 - {company}</title>
  pos_obs = "".join([f'<li class="observation-item">{o}</li>'
                     for o in observations.get('positive', [])])
  \<close>
\<close>

definition title_line :: "(json \<Rightarrow> string) \<Rightarrow> json \<Rightarrow> error + string" where
  "title_line repr r =
     bind (py_get r ''company_name'' (JStr ''Company'')) (\<lambda>company.
     Inr (''    <title>Bank Statement Analysis v5.0 - '' @ py_str repr company @ ''</title>''))"

definition observation_item :: "(json \<Rightarrow> string) \<Rightarrow> json \<Rightarrow> string" where
  \<open>observation_item repr obs = ''<li class="observation-item">'' @ py_str repr obs @ ''</li>''\<close>

definition pos_obs :: "(json \<Rightarrow> string) \<Rightarrow> json \<Rightarrow> error + string" where
  "pos_obs repr observations =
     bind (py_get observations ''positive'' (JList [])) (\<lambda>positive.
     bind (py_iter positive) (\<lambda>items.
     Inr (concat (map (observation_item repr) items))))"

text \<open>
  The round-figure transactions and the credit chart series are embedded with
  \<^verbatim>\<open>json.dumps\<close>, a library function: it is the parameter \<open>dumps\<close>.
  \<^verbatim>\<open>
  round_txns = round_fig.get('all_transactions',
      round_fig.get('top_10_transactions', round_fig.get('transactions', [])))
  round_js = json.dumps([{'date': t.get('date',''), 'desc': t.get('description',''),
      'type': t.get('type','CREDIT'), 'amount': t.get('amount',0),
      'account': t.get('account','')} for t in round_txns])
  if credits_cat:
      credit_vals = json.dumps([c.get('percentage', 0) for c in credits_cat])
      credit_labels = json.dumps([c.get('category', '') for c in credits_cat])
  else:
      credit_vals = json.dumps([])
      credit_labels = json.dumps([])
  \<close>
\<close>

fun map_result :: "('a \<Rightarrow> error + 'b) \<Rightarrow> 'a list \<Rightarrow> error + 'b list" where
  "map_result f [] = Inr []"
| "map_result f (x # xs) =
     (case f x of
        Inl e \<Rightarrow> Inl e
      | Inr y \<Rightarrow> (case map_result f xs of Inl e \<Rightarrow> Inl e | Inr ys \<Rightarrow> Inr (y # ys)))"

definition round_entry :: "json \<Rightarrow> error + json" where
  "round_entry t =
     bind (py_get t ''date'' (JStr [])) (\<lambda>date.
     bind (py_get t ''description'' (JStr [])) (\<lambda>description.
     bind (py_get t ''type'' (JStr ''CREDIT'')) (\<lambda>type.
     bind (py_get t ''amount'' (JInt 0)) (\<lambda>amount.
     bind (py_get t ''account'' (JStr [])) (\<lambda>account.
     Inr (JDict [(''date'', date), (''desc'', description), (''type'', type),
                 (''amount'', amount), (''account'', account)]))))))"

definition round_js :: "(json \<Rightarrow> string) \<Rightarrow> json \<Rightarrow> error + string" where
  "round_js dumps round_fig =
     bind (py_get_eval round_fig ''all_transactions''
            (py_get_eval round_fig ''top_10_transactions''
              (py_get round_fig ''transactions'' (JList [])))) (\<lambda>round_txns.
     bind (py_iter round_txns) (\<lambda>ts.
     bind (map_result round_entry ts) (\<lambda>entries.
     Inr (dumps (JList entries)))))"

definition credit_chart :: "(json \<Rightarrow> string) \<Rightarrow> json \<Rightarrow> error + string \<times> string" where
  "credit_chart dumps credits_cat =
     (if truthy credits_cat
      then bind (py_iter credits_cat) (\<lambda>cs.
           bind (map_result (\<lambda>c. py_get c ''percentage'' (JInt 0)) cs) (\<lambda>vals.
           bind (map_result (\<lambda>c. py_get c ''category'' (JStr [])) cs) (\<lambda>labels.
           Inr (dumps (JList vals), dumps (JList labels)))))
      else Inr (dumps (JList []), dumps (JList [])))"

text \<open>
  What escaping against the special characters of HTML means (Python's
  \<^verbatim>\<open>html.escape\<close>); the source never calls it.
\<close>

fun html_escape :: "string \<Rightarrow> string" where
  \<open>html_escape [] = []\<close>
| \<open>html_escape (c # cs) =
     (if c = CHR ''&'' then ''&amp;''
      else if c = CHR ''<'' then ''&lt;''
      else if c = CHR ''>'' then ''&gt;''
      else if c = CHR 0x22 then ''&quot;''
      else if c = CHR 0x27 then ''&#x27;''
      else [c]) @ html_escape cs\<close>

section \<open>The footer (lines 102-103, 1127)\<close>

text \<open>
  \<^verbatim>\<open>
  period_start = r.get('period_start', '')
  period_end = r.get('period_end', '')
      <p>Generated: {r.get('generated_at', datetime.now().isoformat())} |
         Period: {period_start} - {period_end}</p>
  \<close>
  (one line in the source). The clock is read on every run; \<open>now\<close> is the text
  \<^verbatim>\<open>datetime.now().isoformat()\<close> returned on this run.
\<close>

definition footer_generated :: "(json \<Rightarrow> string) \<Rightarrow> string \<Rightarrow> json \<Rightarrow> error + string" where
  "footer_generated repr now r =
     bind (py_get r ''period_start'' (JStr [])) (\<lambda>period_start.
     bind (py_get r ''period_end'' (JStr [])) (\<lambda>period_end.
     bind (py_get r ''generated_at'' (JStr now)) (\<lambda>generated_at.
     Inr (''            <p>Generated: '' @ py_str repr generated_at @ '' | Period: ''
          @ py_str repr period_start @ '' - '' @ py_str repr period_end @ ''</p>''))))"

text \<open>
  \<^verbatim>\<open>datetime.now()\<close> on line 1127 is the only place where \<^verbatim>\<open>generate_interactive_html\<close>
  reads anything but its argument. The compiled document is the text before the footer
  line, the footer line, and the text after it; the two other parts are computed from the
  document alone, by the rest of the function, which is the parameter \<open>template\<close>.
\<close>

definition generate_interactive_html ::
  "(json \<Rightarrow> error + string \<times> string) \<Rightarrow> (json \<Rightarrow> string) \<Rightarrow> string \<Rightarrow> json \<Rightarrow> error + string"
  where
  "generate_interactive_html template repr now data =
     bind (py_get data ''report_info'' (JDict [])) (\<lambda>r.
     bind (template data) (\<lambda>parts.
     bind (footer_generated repr now r) (\<lambda>footer.
     Inr (fst parts @ footer @ snd parts))))"

section \<open>Basic facts\<close>

lemma bind_Inr [simp]: "bind (Inr v) f = f v"
  by (simp add: bind_def)

lemma bind_Inl [simp]: "bind (Inl e) f = Inl e"
  by (simp add: bind_def)

lemma py_get_dict: "py_get (JDict kvs) k d = Inr (case map_of kvs k of Some v \<Rightarrow> v | None \<Rightarrow> d)"
  by simp

lemma py_get_present: "map_of kvs k = Some v \<Longrightarrow> py_get (JDict kvs) k d = Inr v"
  by simp

lemma py_get_absent: "map_of kvs k = None \<Longrightarrow> py_get (JDict kvs) k d = Inr d"
  by simp

lemma py_gt_num: "num_val x = Some v \<Longrightarrow> py_gt x k = Inr (of_int k < v)"
  by (auto simp: py_gt_def)

section \<open>Monthly high and low balance\<close>

text \<open>
  C6. Monthly high/low balance resolution is a symmetric fallback. For a monthly entry
  (a keyed object) \<open>m\<close>: under the tag \<^verbatim>\<open>'5.0'\<close> the resolved high is the value of
  \<^verbatim>\<open>highest_intraday\<close> if that key is present, else the value of \<^verbatim>\<open>highest\<close> if present,
  else 0; under any other tag (the classifier's other tag is \<^verbatim>\<open>'4.0'\<close>) it is the
  value of \<^verbatim>\<open>highest\<close> if present, else of \<^verbatim>\<open>highest_intraday\<close>, else 0; the low is
  resolved the same way from \<^verbatim>\<open>lowest_intraday\<close> and \<^verbatim>\<open>lowest\<close>. In particular an
  entry that has only the name its version does not prefer resolves to the value stored
  under that name, not to the default 0.
\<close>

theorem monthly_high_low_symmetric_fallback:
  fixes m :: "(string \<times> json) list"
  defines "hi \<equiv> map_of m ''highest''" and "hi_i \<equiv> map_of m ''highest_intraday''"
      and "lo \<equiv> map_of m ''lowest''" and "lo_i \<equiv> map_of m ''lowest_intraday''"
  assumes other: "legacy \<noteq> ''5.0''"
  shows "(hi_i = Some v \<longrightarrow> get_monthly_high (JDict m) ''5.0'' = Inr v)
       \<and> (hi_i = None \<and> hi = Some v \<longrightarrow> get_monthly_high (JDict m) ''5.0'' = Inr v)
       \<and> (hi_i = None \<and> hi = None \<longrightarrow> get_monthly_high (JDict m) ''5.0'' = Inr (JInt 0))
       \<and> (hi = Some v \<longrightarrow> get_monthly_high (JDict m) legacy = Inr v)
       \<and> (hi = None \<and> hi_i = Some v \<longrightarrow> get_monthly_high (JDict m) legacy = Inr v)
       \<and> (hi = None \<and> hi_i = None \<longrightarrow> get_monthly_high (JDict m) legacy = Inr (JInt 0))
       \<and> (lo_i = Some v \<longrightarrow> get_monthly_low (JDict m) ''5.0'' = Inr v)
       \<and> (lo_i = None \<and> lo = Some v \<longrightarrow> get_monthly_low (JDict m) ''5.0'' = Inr v)
       \<and> (lo_i = None \<and> lo = None \<longrightarrow> get_monthly_low (JDict m) ''5.0'' = Inr (JInt 0))
       \<and> (lo = Some v \<longrightarrow> get_monthly_low (JDict m) legacy = Inr v)
       \<and> (lo = None \<and> lo_i = Some v \<longrightarrow> get_monthly_low (JDict m) legacy = Inr v)
       \<and> (lo = None \<and> lo_i = None \<longrightarrow> get_monthly_low (JDict m) legacy = Inr (JInt 0))"
  using other unfolding hi_def hi_i_def lo_def lo_i_def
  by (simp add: get_monthly_high_def get_monthly_low_def)

theorem monthly_high_low_symmetric_fallback_witness:
  "map_of [(''highest'', JInt 7)] ''highest_intraday'' = None
   \<and> map_of [(''highest'', JInt 7)] ''highest'' = Some (JInt 7)
   \<and> get_monthly_high (JDict [(''highest'', JInt 7)]) ''5.0'' = Inr (JInt 7)
   \<and> map_of [(''lowest_intraday'', JInt 3)] ''lowest'' = None
   \<and> map_of [(''lowest_intraday'', JInt 3)] ''lowest_intraday'' = Some (JInt 3)
   \<and> get_monthly_low (JDict [(''lowest_intraday'', JInt 3)]) ''4.0'' = Inr (JInt 3)"
  using monthly_high_low_symmetric_fallback [of "''4.0''" "[(''highest'', JInt 7)]" "JInt 7"]
    monthly_high_low_symmetric_fallback [of "''4.0''" "[(''lowest_intraday'', JInt 3)]" "JInt 3"]
  by simp

section \<open>Schema version classifier\<close>

text \<open>
  C4 (as amended). The classifier applies its four rules in order, the first match
  winning, on a keyed document whose \<^verbatim>\<open>report_info\<close> is absent or keyed and whose
  \<^verbatim>\<open>schema_version\<close> is absent or a string \<open>sv\<close> (absent counts as the empty string):
  \<^enum> \<open>sv\<close> starts with \<^verbatim>\<open>5.\<close>: the tag is \<^verbatim>\<open>'5.0'\<close>, whatever the rest of the document;
  \<^enum> \<^verbatim>\<open>recurring_payments\<close> or \<^verbatim>\<open>non_bank_financing\<close> is present and non-empty: \<^verbatim>\<open>'5.0'\<close>,
    whatever \<^verbatim>\<open>accounts\<close> holds;
  \<^enum> the first monthly entry of the \<^emph>\<open>first\<close> account contains the key
    \<^verbatim>\<open>highest_intraday\<close>: \<^verbatim>\<open>'5.0'\<close>, also when the version string is missing or is a
    string that names no version;
  \<^enum> none of these, with no accounts, or a first account with no monthly entries or
    whose first monthly entry lacks the key: \<^verbatim>\<open>'4.0'\<close>.
  Only \<^verbatim>\<open>accounts[0]\<close> is inspected: the accounts after the first are never read.
\<close>

theorem classifier_rules_in_order:
  fixes d :: "(string \<times> json) list"
  defines "D \<equiv> detect_schema_version (JDict d)"
      and "recurring \<equiv> (case map_of d ''recurring_payments'' of Some v \<Rightarrow> v | None \<Rightarrow> JNull)"
      and "non_bank \<equiv> (case map_of d ''non_bank_financing'' of Some v \<Rightarrow> v | None \<Rightarrow> JNull)"
      and "accounts \<equiv> map_of d ''accounts''"
  assumes info: "py_get (JDict d) ''report_info'' (JDict []) = Inr (JDict r)"
      and version: "py_get (JDict r) ''schema_version'' (JStr []) = Inr (JStr sv)"
  shows "(startswith sv ''5.'' \<longrightarrow> D = Inr ''5.0'')
       \<and> (truthy recurring \<or> truthy non_bank \<longrightarrow> D = Inr ''5.0'')
       \<and> (accounts = Some (JList (JDict a # as))
            \<and> map_of a ''monthly_summary'' = Some (JList (JDict m # ms))
            \<and> map_of m ''highest_intraday'' \<noteq> None \<longrightarrow> D = Inr ''5.0'')
       \<and> (\<not> startswith sv ''5.'' \<and> \<not> truthy recurring \<and> \<not> truthy non_bank
            \<and> (accounts = None \<or> accounts = Some (JList [])
                \<or> (accounts = Some (JList (JDict a # as))
                    \<and> (map_of a ''monthly_summary'' = None
                        \<or> map_of a ''monthly_summary'' = Some (JList [])
                        \<or> (map_of a ''monthly_summary'' = Some (JList (JDict m # ms))
                            \<and> map_of m ''highest_intraday'' = None))))
            \<longrightarrow> D = Inr ''4.0'')"
  using info version unfolding D_def recurring_def non_bank_def accounts_def
  by (auto simp: detect_schema_version_def split: option.splits)

theorem classifier_rules_in_order_witness:
  "py_get (JDict [(''report_info'', JDict [(''schema_version'', JStr ''v-next'')]),
                  (''accounts'', JList [JDict [(''monthly_summary'',
                      JList [JDict [(''highest_intraday'', JInt 1)]])]])])
      ''report_info'' (JDict []) = Inr (JDict [(''schema_version'', JStr ''v-next'')])
   \<and> py_get (JDict [(''schema_version'', JStr ''v-next'')]) ''schema_version'' (JStr [])
        = Inr (JStr ''v-next'')
   \<and> detect_schema_version
        (JDict [(''report_info'', JDict [(''schema_version'', JStr ''v-next'')]),
                (''accounts'', JList [JDict [(''monthly_summary'',
                    JList [JDict [(''highest_intraday'', JInt 1)]])]])]) = Inr ''5.0''"
  using classifier_rules_in_order
    [of "[(''report_info'', JDict [(''schema_version'', JStr ''v-next'')]),
          (''accounts'', JList [JDict [(''monthly_summary'',
              JList [JDict [(''highest_intraday'', JInt 1)]])]])]"
        "[(''schema_version'', JStr ''v-next'')]" "''v-next''"
        "[(''monthly_summary'', JList [JDict [(''highest_intraday'', JInt 1)]])]" "[]"
        "[(''highest_intraday'', JInt 1)]" "[]"]
  by simp

text \<open>
  The claim as stated speaks of \<^emph>\<open>any\<close> account. A document whose second account alone
  has an intraday first monthly entry is classified \<^verbatim>\<open>'4.0'\<close>.
\<close>

theorem classifier_second_account_counterexample:
  "detect_schema_version
     (JDict [(''accounts'', JList
        [JDict [(''monthly_summary'', JList [JDict [(''highest'', JInt 1)]])],
         JDict [(''monthly_summary'', JList [JDict [(''highest_intraday'', JInt 1)]])]])])
   = Inr ''4.0''"
  by (simp add: detect_schema_version_def)

text \<open>
  C5 (as amended). On a keyed document whose \<^verbatim>\<open>report_info\<close> is absent or keyed, whose
  \<^verbatim>\<open>schema_version\<close> is absent or a string, and which either matches rule 1 or rule 2 or
  has \<^verbatim>\<open>accounts\<close> absent, empty, or a list starting with a keyed account whose
  \<^verbatim>\<open>monthly_summary\<close> is absent, empty, or a list starting with a keyed entry, the
  classifier returns one of its two tags and raises nothing. A version string that is
  absent or does not start with \<^verbatim>\<open>5.\<close>, in a document with no recurring-payments or
  non-bank-financing section and no accounts, gives \<^verbatim>\<open>'4.0'\<close>.
\<close>

theorem classifier_total_on_well_shaped:
  fixes d :: "(string \<times> json) list"
  defines "D \<equiv> detect_schema_version (JDict d)"
      and "recurring \<equiv> (case map_of d ''recurring_payments'' of Some v \<Rightarrow> v | None \<Rightarrow> JNull)"
      and "non_bank \<equiv> (case map_of d ''non_bank_financing'' of Some v \<Rightarrow> v | None \<Rightarrow> JNull)"
      and "accounts \<equiv> map_of d ''accounts''"
  assumes info: "map_of d ''report_info'' = None \<and> r = []
                 \<or> map_of d ''report_info'' = Some (JDict r)"
      and version: "map_of r ''schema_version'' = None \<and> sv = []
                 \<or> map_of r ''schema_version'' = Some (JStr sv)"
      and shape: "startswith sv ''5.'' \<or> truthy recurring \<or> truthy non_bank
                 \<or> accounts = None \<or> accounts = Some (JList [])
                 \<or> (accounts = Some (JList (JDict a # as))
                     \<and> (map_of a ''monthly_summary'' = None
                         \<or> map_of a ''monthly_summary'' = Some (JList [])
                         \<or> map_of a ''monthly_summary'' = Some (JList (JDict m # ms))))"
  shows "(D = Inr ''4.0'' \<or> D = Inr ''5.0'')
       \<and> (\<not> startswith sv ''5.'' \<and> \<not> truthy recurring \<and> \<not> truthy non_bank
            \<and> (accounts = None \<or> accounts = Some (JList [])) \<longrightarrow> D = Inr ''4.0'')"
proof -
  have i: "py_get (JDict d) ''report_info'' (JDict []) = Inr (JDict r)"
    using info by auto
  have v: "py_get (JDict r) ''schema_version'' (JStr []) = Inr (JStr sv)"
    using version by auto
  have unfolded: "D =
     (if startswith sv ''5.'' then Inr ''5.0''
      else if truthy recurring \<or> truthy non_bank then Inr ''5.0''
      else bind (py_get (JDict d) ''accounts'' (JList [])) (\<lambda>accounts.
         if truthy accounts then
           bind (py_index0 accounts) (\<lambda>first_account.
           bind (py_get first_account ''monthly_summary'' (JList [])) (\<lambda>monthly.
           if truthy monthly then
             bind (py_index0 monthly) (\<lambda>first_month.
             bind (py_contains ''highest_intraday'' first_month) (\<lambda>has_intraday.
             if has_intraday then Inr ''5.0'' else Inr ''4.0''))
           else Inr ''4.0''))
         else Inr ''4.0''))"
    unfolding D_def detect_schema_version_def recurring_def non_bank_def
    by (simp only: i v bind_Inr py_startswith.simps) (simp split: option.splits)
  from shape show ?thesis
    unfolding unfolded accounts_def
    by (elim disjE conjE) (simp_all split: option.splits)
qed

theorem classifier_total_on_well_shaped_witness:
  "map_of [(''report_info'', JDict [(''schema_version'', JStr ''draft'')])] ''report_info''
     = Some (JDict [(''schema_version'', JStr ''draft'')])
   \<and> map_of [(''schema_version'', JStr ''draft'')] ''schema_version'' = Some (JStr ''draft'')
   \<and> \<not> startswith ''draft'' ''5.''
   \<and> detect_schema_version
        (JDict [(''report_info'', JDict [(''schema_version'', JStr ''draft'')])]) = Inr ''4.0''"
  using classifier_total_on_well_shaped
    [of "[(''report_info'', JDict [(''schema_version'', JStr ''draft'')])]"
        "[(''schema_version'', JStr ''draft'')]" "''draft''"]
  by simp

text \<open>
  The claim as stated allows any type for \<^verbatim>\<open>report_info\<close> and \<^verbatim>\<open>schema_version\<close>. A version
  that is the number 5, or a \<^verbatim>\<open>report_info\<close> that is a list, makes the classifier raise
  \<^verbatim>\<open>AttributeError\<close> (\<^verbatim>\<open>startswith\<close> and \<^verbatim>\<open>get\<close> are methods of \<^verbatim>\<open>str\<close> and \<^verbatim>\<open>dict\<close>).
\<close>

theorem classifier_non_string_version_counterexample:
  "detect_schema_version (JDict [(''report_info'', JDict [(''schema_version'', JInt 5)])])
     = Inl AttributeError
   \<and> detect_schema_version (JDict [(''report_info'', JList [])]) = Inl AttributeError"
  by (simp add: detect_schema_version_def)

section \<open>Inter-account transfers\<close>

lemma py_get_eval_dict:
  "py_get_eval (JDict kvs) k (Inr d) = Inr (case map_of kvs k of Some v \<Rightarrow> v | None \<Rightarrow> d)"
  by simp

text \<open>
  C3 (as amended). For a keyed \<^verbatim>\<open>inter_account_transfers\<close> object whose
  \<^verbatim>\<open>matched_transfers\<close> and \<^verbatim>\<open>summary\<close> are each absent or keyed:
  \<^item> the transfer list is \<^verbatim>\<open>matched_transfers.all_transfers\<close> if that key is present, else
    \<^verbatim>\<open>matched_transfers.top_10_transfers\<close>, else the top-level \<^verbatim>\<open>transfers\<close>, else the empty
    list;
  \<^item> the count is \<^verbatim>\<open>summary.total_count\<close> if present, else the top-level
    \<^verbatim>\<open>detected_count\<close>, else the length of the resolved transfer list;
  \<^item> the total is \<^verbatim>\<open>summary.total_amount\<close> if present, else the top-level
    \<^verbatim>\<open>total_amount\<close>, else 0: the transfer list is never summed.
  The length of the resolved list is computed in every case, so the list must be a value
  that has a length.
\<close>

theorem inter_account_fallback_chain:
  fixes ia matched summary :: "(string \<times> json) list"
  defines "transfers \<equiv>
     (case map_of matched ''all_transfers'' of Some v \<Rightarrow> v | None \<Rightarrow>
      (case map_of matched ''top_10_transfers'' of Some v \<Rightarrow> v | None \<Rightarrow>
       (case map_of ia ''transfers'' of Some v \<Rightarrow> v | None \<Rightarrow> JList [])))"
  assumes m: "map_of ia ''matched_transfers'' = None \<and> matched = []
              \<or> map_of ia ''matched_transfers'' = Some (JDict matched)"
      and s: "map_of ia ''summary'' = None \<and> summary = []
              \<or> map_of ia ''summary'' = Some (JDict summary)"
      and n: "py_len transfers = Inr n"
  shows "resolve_inter_account (JDict ia) =
     Inr \<lparr>inter_transfers = transfers,
          inter_count =
            (case map_of summary ''total_count'' of Some v \<Rightarrow> v | None \<Rightarrow>
             (case map_of ia ''detected_count'' of Some v \<Rightarrow> v | None \<Rightarrow> JInt n)),
          inter_total =
            (case map_of summary ''total_amount'' of Some v \<Rightarrow> v | None \<Rightarrow>
             (case map_of ia ''total_amount'' of Some v \<Rightarrow> v | None \<Rightarrow> JInt 0))\<rparr>"
proof -
  have gm: "py_get (JDict ia) ''matched_transfers'' (JDict []) = Inr (JDict matched)"
    using m by auto
  have gs: "py_get (JDict ia) ''summary'' (JDict []) = Inr (JDict summary)"
    using s by auto
  have t: "py_get_eval (JDict matched) ''all_transfers''
            (py_get_eval (JDict matched) ''top_10_transfers''
              (py_get (JDict ia) ''transfers'' (JList []))) = Inr transfers"
    unfolding transfers_def by (simp split: option.splits)
  show ?thesis
    unfolding resolve_inter_account_def gm gs bind_Inr t
    using n by (simp split: option.splits)
qed

theorem inter_account_fallback_chain_witness:
  "resolve_inter_account
     (JDict [(''summary'', JDict [(''total_count'', JInt 12)]),
             (''total_amount'', JInt 900),
             (''matched_transfers'', JDict [(''top_10_transfers'', JList [JDict []])]),
             (''transfers'', JList [])]) =
   Inr \<lparr>inter_transfers = JList [JDict []], inter_count = JInt 12, inter_total = JInt 900\<rparr>"
  using inter_account_fallback_chain
    [of "[(''summary'', JDict [(''total_count'', JInt 12)]),
          (''total_amount'', JInt 900),
          (''matched_transfers'', JDict [(''top_10_transfers'', JList [JDict []])]),
          (''transfers'', JList [])]"
        "[(''top_10_transfers'', JList [JDict []])]"
        "[(''total_count'', JInt 12)]" 1]
  by simp

text \<open>
  The claim as stated makes the total of a document with neither \<^verbatim>\<open>total_amount\<close> the sum
  of the resolved transfers. With one transfer of 100 and no totals the resolved total
  is 0, while the count falls back to the length 1.
\<close>

theorem inter_total_not_summed_counterexample:
  "resolve_inter_account (JDict [(''transfers'', JList [JDict [(''amount'', JInt 100)]])]) =
   Inr \<lparr>inter_transfers = JList [JDict [(''amount'', JInt 100)]],
        inter_count = JInt 1, inter_total = JInt 0\<rparr>"
  by (simp add: resolve_inter_account_def)

section \<open>Non-bank financing sources\<close>

lemma scalar_eq_sym: "scalar_eq a b = scalar_eq b a"
  by (auto simp: scalar_eq_def split: option.splits)

lemma scalar_eq_refl: "scalar_eq a a"
  by (simp add: scalar_eq_def split: option.splits)

lemma py_get_inflow: "is_dict s \<Longrightarrow> py_get s ''total_inflow'' (JInt 0) = Inr (inflow s)"
  by (cases s) (simp_all add: inflow_def)

lemma unique_sources_loop_spec:
  assumes "\<forall>s \<in> set sources. is_dict s \<and> hashable (inflow s)"
  shows "unique_sources_loop sources seen unique =
         Inr (unique @ first_seen_spec
                (filter (\<lambda>s. \<not> (\<exists>y \<in> set seen. scalar_eq y (inflow s))) sources))"
  using assms
proof (induction sources arbitrary: seen unique)
  case Nil
  then show ?case by simp
next
  case (Cons s rest)
  have get: "py_get s ''total_inflow'' (JInt 0) = Inr (inflow s)"
    using Cons.prems by (simp add: py_get_inflow)
  have mem: "set_contains seen (inflow s) = Inr (\<exists>y \<in> set seen. scalar_eq y (inflow s))"
    using Cons.prems by (simp add: set_contains_def)
  have rest: "\<forall>s \<in> set rest. is_dict s \<and> hashable (inflow s)"
    using Cons.prems by simp
  show ?case
  proof (cases "\<exists>y \<in> set seen. scalar_eq y (inflow s)")
    case True
    have step: "unique_sources_loop (s # rest) seen unique =
                unique_sources_loop rest seen unique"
      using True by (simp add: get mem)
    have drop: "filter (\<lambda>s. \<not> (\<exists>y \<in> set seen. scalar_eq y (inflow s))) (s # rest)
              = filter (\<lambda>s. \<not> (\<exists>y \<in> set seen. scalar_eq y (inflow s))) rest"
      using True by auto
    show ?thesis
      unfolding step drop by (rule Cons.IH [OF rest])
  next
    case False
    have flt: "filter (\<lambda>t. \<not> scalar_eq (inflow t) (inflow s))
                 (filter (\<lambda>t. \<not> (\<exists>y \<in> set seen. scalar_eq y (inflow t))) rest)
             = filter (\<lambda>t. \<not> (\<exists>y \<in> set (seen @ [inflow s]). scalar_eq y (inflow t))) rest"
      by (auto simp: scalar_eq_sym [of "inflow s"] intro: filter_cong)
    have step: "unique_sources_loop (s # rest) seen unique =
                unique_sources_loop rest (seen @ [inflow s]) (unique @ [s])"
      using False by (simp add: get mem)
    have keep: "filter (\<lambda>s. \<not> (\<exists>y \<in> set seen. scalar_eq y (inflow s))) (s # rest)
              = s # filter (\<lambda>s. \<not> (\<exists>y \<in> set seen. scalar_eq y (inflow s))) rest"
      using False by simp
    show ?thesis
      unfolding step keep first_seen_spec.simps flt
      using Cons.IH [OF rest, of "seen @ [inflow s]" "unique @ [s]"]
      by (simp only: append_assoc append_Cons append_Nil)
  qed
qed

lemma first_seen_spec_subset: "set (first_seen_spec xs) \<subseteq> set xs"
  by (induction xs rule: first_seen_spec.induct) auto

lemma first_seen_spec_subseq: "subseq (first_seen_spec xs) xs"
proof (induction xs rule: first_seen_spec.induct)
  case 1
  then show ?case by simp
next
  case (2 s rest)
  have "subseq (filter (\<lambda>t. \<not> scalar_eq (inflow t) (inflow s)) rest) rest"
    by simp
  with 2 show ?case
    by (auto intro: subseq_order.order_trans)
qed

lemma first_seen_spec_distinct:
  "sorted_wrt (\<lambda>a b. \<not> scalar_eq (inflow a) (inflow b)) (first_seen_spec xs)"
proof (induction xs rule: first_seen_spec.induct)
  case 1
  then show ?case by simp
next
  case (2 s rest)
  have "\<forall>t \<in> set (first_seen_spec (filter (\<lambda>t. \<not> scalar_eq (inflow t) (inflow s)) rest)).
          \<not> scalar_eq (inflow s) (inflow t)"
    using first_seen_spec_subset [of "filter (\<lambda>t. \<not> scalar_eq (inflow t) (inflow s)) rest"]
    by (auto simp: scalar_eq_sym [of "inflow s"])
  with 2 show ?case by simp
qed

lemma first_seen_spec_covers:
  "s \<in> set xs \<Longrightarrow> \<exists>u \<in> set (first_seen_spec xs). scalar_eq (inflow u) (inflow s)"
proof (induction xs rule: first_seen_spec.induct)
  case 1
  then show ?case by simp
next
  case (2 x rest)
  show ?case
  proof (cases "scalar_eq (inflow s) (inflow x)")
    case True
    then show ?thesis by (auto simp: scalar_eq_sym [of "inflow x"])
  next
    case False
    with 2 have "s \<in> set (filter (\<lambda>t. \<not> scalar_eq (inflow t) (inflow x)) rest)"
      by (auto simp: scalar_eq_refl)
    from "2.IH" [OF this] show ?thesis by auto
  qed
qed

text \<open>
  C7. Non-bank financing sources are deduplicated by inflow amount with first-seen order
  preserved. For a \<^verbatim>\<open>sources\<close> list of keyed sources whose \<^verbatim>\<open>total_inflow\<close> is absent
  (read as 0), \<^verbatim>\<open>null\<close>, a number or a string, the resolved list is \<open>first_seen_spec\<close> of
  the list: each source is kept unless an earlier one has an equal amount. It is a
  subsequence of the source list, no two of its sources have equal amounts, and every
  source has a kept source with an equal amount. The scenario of the specification,
  written with the keys the code reads (\<^verbatim>\<open>source_type\<close>, \<^verbatim>\<open>total_inflow\<close>): the sources
  A (100), B (100), C (200) resolve to A (100), C (200).
\<close>

theorem non_bank_sources_first_seen:
  assumes nb: "map_of non_bank ''sources'' = Some (JList sources)"
      and shape: "\<forall>s \<in> set sources. is_dict s \<and> hashable (inflow s)"
  shows "unique_sources (JDict non_bank) = Inr (first_seen_spec sources)
       \<and> subseq (first_seen_spec sources) sources
       \<and> sorted_wrt (\<lambda>a b. \<not> scalar_eq (inflow a) (inflow b)) (first_seen_spec sources)
       \<and> (\<forall>s \<in> set sources. \<exists>u \<in> set (first_seen_spec sources).
             scalar_eq (inflow u) (inflow s))
       \<and> unique_sources (JDict [(''sources'', JList
            [JDict [(''source_type'', JStr ''A''), (''total_inflow'', JInt 100)],
             JDict [(''source_type'', JStr ''B''), (''total_inflow'', JInt 100)],
             JDict [(''source_type'', JStr ''C''), (''total_inflow'', JInt 200)]])]) =
           Inr [JDict [(''source_type'', JStr ''A''), (''total_inflow'', JInt 100)],
                JDict [(''source_type'', JStr ''C''), (''total_inflow'', JInt 200)]]"
proof -
  have "unique_sources (JDict non_bank) = Inr (first_seen_spec sources)"
    using nb unique_sources_loop_spec [OF shape, of "[]" "[]"]
    by (simp add: unique_sources_def)
  moreover have "unique_sources (JDict [(''sources'', JList
            [JDict [(''source_type'', JStr ''A''), (''total_inflow'', JInt 100)],
             JDict [(''source_type'', JStr ''B''), (''total_inflow'', JInt 100)],
             JDict [(''source_type'', JStr ''C''), (''total_inflow'', JInt 200)]])]) =
           Inr [JDict [(''source_type'', JStr ''A''), (''total_inflow'', JInt 100)],
                JDict [(''source_type'', JStr ''C''), (''total_inflow'', JInt 200)]]"
    by (simp add: unique_sources_def set_contains_def scalar_eq_def)
  ultimately show ?thesis
    using first_seen_spec_subseq first_seen_spec_distinct first_seen_spec_covers by blast
qed

theorem non_bank_sources_first_seen_witness:
  "unique_sources (JDict [(''risk_level'', JStr ''LOW''), (''sources'', JList
      [JDict [(''source_type'', JStr ''P2P''), (''total_inflow'', JFloat (Finite (5 / 2)))],
       JDict [(''source_type'', JStr ''Factoring''), (''total_inflow'', JInt 7)],
       JDict [(''source_type'', JStr ''Leasing''), (''total_inflow'', JFloat (Finite (5 / 2)))]])]) =
   Inr [JDict [(''source_type'', JStr ''P2P''), (''total_inflow'', JFloat (Finite (5 / 2)))],
        JDict [(''source_type'', JStr ''Factoring''), (''total_inflow'', JInt 7)]]"
proof -
  have "first_seen_spec
      [JDict [(''source_type'', JStr ''P2P''), (''total_inflow'', JFloat (Finite (5 / 2)))],
       JDict [(''source_type'', JStr ''Factoring''), (''total_inflow'', JInt 7)],
       JDict [(''source_type'', JStr ''Leasing''), (''total_inflow'', JFloat (Finite (5 / 2)))]] =
      [JDict [(''source_type'', JStr ''P2P''), (''total_inflow'', JFloat (Finite (5 / 2)))],
       JDict [(''source_type'', JStr ''Factoring''), (''total_inflow'', JInt 7)]]"
    by (simp add: inflow_def scalar_eq_def)
  then show ?thesis
    using non_bank_sources_first_seen
      [of "[(''risk_level'', JStr ''LOW''), (''sources'', JList
      [JDict [(''source_type'', JStr ''P2P''), (''total_inflow'', JFloat (Finite (5 / 2)))],
       JDict [(''source_type'', JStr ''Factoring''), (''total_inflow'', JInt 7)],
       JDict [(''source_type'', JStr ''Leasing''), (''total_inflow'', JFloat (Finite (5 / 2)))]])]"
       "[JDict [(''source_type'', JStr ''P2P''), (''total_inflow'', JFloat (Finite (5 / 2)))],
       JDict [(''source_type'', JStr ''Factoring''), (''total_inflow'', JInt 7)],
       JDict [(''source_type'', JStr ''Leasing''), (''total_inflow'', JFloat (Finite (5 / 2)))]]"]
    by (simp add: inflow_def)
qed

section \<open>Volatility alerts\<close>

lemma py_get_field: "is_dict x \<Longrightarrow> py_get x k d = Inr (field x k d)"
  by (cases x) (simp_all add: field_def)













section \<open>Kite-flying indicator rows\<close>

lemma kite_row_nonempty: "kite_row a b c d e \<noteq> []"
  by (simp add: kite_row_def)

lemma structured_row_dict:
  "is_dict i \<Longrightarrow> structured_row repr i = Inr (structured_row_spec repr i)"
  by (simp add: structured_row_def structured_row_spec_def py_get_field)

lemma structured_rows_spec:
  "\<forall>i \<in> set items. is_dict i \<Longrightarrow>
   structured_rows repr items acc = Inr (acc @ concat (map (structured_row_spec repr) items))"
  by (induction items arbitrary: acc) (simp_all add: structured_row_dict)

lemma string_row_list:
  assumes "num_val kite_score = Some x"
  shows "string_row repr kite_score (JList fs) idx ind =
         Inr (string_row_spec repr (0 < x) fs (idx, ind))"
  using assms by (simp add: string_row_def string_row_spec_def py_gt_num)

lemma string_rows_spec:
  assumes "num_val kite_score = Some x"
  shows "string_rows repr kite_score (JList fs) idx items acc =
         Inr (acc @ concat (map (string_row_spec repr (0 < x) fs) (enumerate idx items)))"
  by (induction items arbitrary: idx acc) (simp_all add: string_row_list [OF assms])

lemma first_is_Cons: "first_is P (JList (i # rest)) = Inr (P i)"
  by (simp add: first_is_def)

lemma first_is_Nil: "first_is P (JList []) = Inr False"
  by (simp add: first_is_def)

lemma default_indicators_seven:
  assumes "num_val round_count = Some c"
  shows "\<exists>entries. default_indicators repr round_count = Inr entries
               \<and> default_rows repr round_count = Inr (concat (map default_row entries))
               \<and> map fst entries =
                   [''Circular Transfers'', ''Month-End Concentration'',
                    ''Round Amount Patterns'', ''Timing Exploitation'',
                    ''Suspicious Balance Spikes'', ''Same Amount In/Out'',
                    ''Vague Descriptions'']
               \<and> map (\<lambda>e. fst (snd e)) entries =
                   [''PASS'', ''PASS'', if 5 < c then ''WARNING'' else ''PASS'',
                    ''PASS'', ''PASS'', ''PASS'', ''PASS'']"
  using assms by (simp add: default_indicators_def default_rows_def py_gt_num)

lemma kite_rows_strings:
  assumes ind: "map_of kite ''indicators'' = Some (JList (i # rest))" and str: "is_str i"
      and sc: "num_val (field (JDict kite) ''risk_score'' (JInt 0)) = Some x"
      and df: "field (JDict kite) ''detailed_findings'' (JList []) = JList findings"
  shows "kite_rows repr (JDict kite) round_count =
         Inr (concat (map (string_row_spec repr (0 < x) findings) (enumerate 0 (i # rest))))"
proof -
  have nd: "first_is is_dict (JList (i # rest)) = Inr False"
    using str by (cases i) (simp_all add: first_is_Cons)
  have st: "first_is is_str (JList (i # rest)) = Inr True"
    using str by (simp add: first_is_Cons)
  have g1: "py_get (JDict kite) ''indicators'' (JList []) = Inr (JList (i # rest))"
    using ind by simp
  have g2: "py_get (JDict kite) ''risk_score'' (JInt 0)
            = Inr (field (JDict kite) ''risk_score'' (JInt 0))"
    by (rule py_get_field) simp
  have "py_get (JDict kite) ''detailed_findings'' (JList [])
        = Inr (field (JDict kite) ''detailed_findings'' (JList []))"
    by (rule py_get_field) simp
  then have g3: "py_get (JDict kite) ''detailed_findings'' (JList []) = Inr (JList findings)"
    by (simp only: df)
  define R where
    "R = concat (map (string_row_spec repr (0 < x) findings) (enumerate 0 (i # rest)))"
  have ne: "R \<noteq> []"
    by (simp add: R_def string_row_spec_def kite_row_nonempty)
  have r: "string_rows repr (field (JDict kite) ''risk_score'' (JInt 0))
             (JList findings) 0 (i # rest) [] = Inr R"
    using string_rows_spec [OF sc, of repr findings 0 "i # rest" "[]"]
    by (simp only: R_def append_Nil)
  have "kite_rows repr (JDict kite) round_count = Inr R"
    unfolding kite_rows_def g1 g2 g3 bind_Inr nd st py_iter.simps if_False if_True r
    using ne by simp
  then show ?thesis by (simp only: R_def)
qed

lemma kite_rows_dicts:
  assumes ind: "map_of kite ''indicators'' = Some (JList (i # rest))"
      and all: "\<forall>j \<in> set (i # rest). is_dict j"
  shows "kite_rows repr (JDict kite) round_count =
         Inr (concat (map (structured_row_spec repr) (i # rest)))"
proof -
  have fd: "first_is is_dict (JList (i # rest)) = Inr True"
    using all by (simp add: first_is_Cons)
  have g1: "py_get (JDict kite) ''indicators'' (JList []) = Inr (JList (i # rest))"
    using ind by simp
  have g2: "py_get (JDict kite) ''risk_score'' (JInt 0)
            = Inr (field (JDict kite) ''risk_score'' (JInt 0))"
    by (rule py_get_field) simp
  define R where "R = concat (map (structured_row_spec repr) (i # rest))"
  have ne: "R \<noteq> []"
    by (simp add: R_def structured_row_spec_def kite_row_nonempty)
  have r: "structured_rows repr (i # rest) [] = Inr R"
    using structured_rows_spec [OF all, of repr "[]"] by (simp only: R_def append_Nil)
  have "kite_rows repr (JDict kite) round_count = Inr R"
    unfolding kite_rows_def g1 g2 bind_Inr fd py_iter.simps if_True r
    using ne by simp
  then show ?thesis by (simp only: R_def)
qed

lemma kite_rows_default:
  assumes "map_of kite ''indicators'' = None \<or> map_of kite ''indicators'' = Some (JList [])
           \<or> (map_of kite ''indicators'' = Some (JList (i # rest))
               \<and> \<not> is_dict i \<and> \<not> is_str i)"
  shows "kite_rows repr (JDict kite) round_count = default_rows repr round_count"
proof -
  obtain xs where g1: "py_get (JDict kite) ''indicators'' (JList []) = Inr (JList xs)"
    and fd: "first_is is_dict (JList xs) = Inr False"
    and fs: "first_is is_str (JList xs) = Inr False"
    using assms by (auto simp: first_is_Cons first_is_Nil)
  have g2: "py_get (JDict kite) ''risk_score'' (JInt 0)
            = Inr (field (JDict kite) ''risk_score'' (JInt 0))"
    by (rule py_get_field) simp
  show ?thesis
    unfolding kite_rows_def g1 g2 bind_Inr fd fs if_False
    by simp
qed

text \<open>
  C10 (as amended). When \<^verbatim>\<open>kite_flying.indicators\<close> is a non-empty list, the type of its
  first element alone chooses the row format:
  \<^item> first element keyed: every element is rendered as a structured row (indicator,
    status, points and finding read by key), provided every element is keyed; an element
    that is not keyed makes the rendering raise \<^verbatim>\<open>AttributeError\<close>;
  \<^item> first element a string: every element, whatever its type, is rendered as a
    string-form row whose status is \<^verbatim>\<open>WARNING\<close> for every row when the risk score is greater
    than 0 and \<^verbatim>\<open>PASS\<close> for every row otherwise (zero or negative), where the risk score is
    a number and \<^verbatim>\<open>detailed_findings\<close> is absent or a list;
  \<^item> list absent or empty, or first element neither keyed nor a string: the seven default
    checks are rendered, the third of which is \<^verbatim>\<open>WARNING\<close> when the round-figure count
    exceeds 5.
\<close>

theorem kite_row_format_by_first_element:
  fixes kite :: "(string \<times> json) list" and repr :: "json \<Rightarrow> string" and round_count :: json
  defines "rows \<equiv> kite_rows repr (JDict kite) round_count"
      and "indicators \<equiv> map_of kite ''indicators''"
  shows "(indicators = Some (JList (i # rest)) \<and> is_dict i \<and> (\<forall>j \<in> set rest. is_dict j)
            \<longrightarrow> rows = Inr (concat (map (structured_row_spec repr) (i # rest))))
       \<and> (indicators = Some (JList (i # rest)) \<and> is_str i
            \<and> num_val (field (JDict kite) ''risk_score'' (JInt 0)) = Some x
            \<and> field (JDict kite) ''detailed_findings'' (JList []) = JList findings
            \<longrightarrow> rows = Inr (concat (map (string_row_spec repr (0 < x) findings)
                                      (enumerate 0 (i # rest)))))
       \<and> ((indicators = None \<or> indicators = Some (JList [])
             \<or> (indicators = Some (JList (i # rest)) \<and> \<not> is_dict i \<and> \<not> is_str i))
            \<longrightarrow> rows = default_rows repr round_count)
       \<and> (num_val round_count = Some c \<longrightarrow>
            (\<exists>entries. default_indicators repr round_count = Inr entries
               \<and> default_rows repr round_count = Inr (concat (map default_row entries))
               \<and> map fst entries =
                   [''Circular Transfers'', ''Month-End Concentration'',
                    ''Round Amount Patterns'', ''Timing Exploitation'',
                    ''Suspicious Balance Spikes'', ''Same Amount In/Out'',
                    ''Vague Descriptions'']
               \<and> map (\<lambda>e. fst (snd e)) entries =
                   [''PASS'', ''PASS'', if 5 < c then ''WARNING'' else ''PASS'',
                    ''PASS'', ''PASS'', ''PASS'', ''PASS'']))"
proof (intro conjI impI)
  assume a: "indicators = Some (JList (i # rest)) \<and> is_dict i \<and> (\<forall>j \<in> set rest. is_dict j)"
  then have all: "\<forall>j \<in> set (i # rest). is_dict j" by simp
  from a have ind: "map_of kite ''indicators'' = Some (JList (i # rest))"
    by (simp add: indicators_def)
  show "rows = Inr (concat (map (structured_row_spec repr) (i # rest)))"
    unfolding rows_def by (rule kite_rows_dicts [OF ind all])
next
  assume b: "indicators = Some (JList (i # rest)) \<and> is_str i
            \<and> num_val (field (JDict kite) ''risk_score'' (JInt 0)) = Some x
            \<and> field (JDict kite) ''detailed_findings'' (JList []) = JList findings"
  then have ind: "map_of kite ''indicators'' = Some (JList (i # rest))"
    by (simp add: indicators_def)
  from b have str: "is_str i"
    and sc: "num_val (field (JDict kite) ''risk_score'' (JInt 0)) = Some x"
    and df: "field (JDict kite) ''detailed_findings'' (JList []) = JList findings"
    by simp_all
  show "rows = Inr (concat (map (string_row_spec repr (0 < x) findings)
                                      (enumerate 0 (i # rest))))"
    unfolding rows_def by (rule kite_rows_strings [OF ind str sc df])
next
  assume c: "indicators = None \<or> indicators = Some (JList [])
             \<or> (indicators = Some (JList (i # rest)) \<and> \<not> is_dict i \<and> \<not> is_str i)"
  show "rows = default_rows repr round_count"
    unfolding rows_def using c [unfolded indicators_def] by (rule kite_rows_default)
next
  assume "num_val round_count = Some c"
  then show "\<exists>entries. default_indicators repr round_count = Inr entries
               \<and> default_rows repr round_count = Inr (concat (map default_row entries))
               \<and> map fst entries =
                   [''Circular Transfers'', ''Month-End Concentration'',
                    ''Round Amount Patterns'', ''Timing Exploitation'',
                    ''Suspicious Balance Spikes'', ''Same Amount In/Out'',
                    ''Vague Descriptions'']
               \<and> map (\<lambda>e. fst (snd e)) entries =
                   [''PASS'', ''PASS'', if 5 < c then ''WARNING'' else ''PASS'',
                    ''PASS'', ''PASS'', ''PASS'', ''PASS'']"
    by (rule default_indicators_seven)
qed

theorem kite_row_format_by_first_element_witness:
  "\<forall>repr. kite_rows repr
      (JDict [(''risk_score'', JInt 3),
              (''indicators'', JList [JStr ''Circular transfers seen'', JStr ''Round amounts'']),
              (''detailed_findings'', JList [JStr ''A to B to A on 3 May''])])
      (JInt 0) =
    Inr (kite_row ''Circular transfers seen'' ''MODERATE'' ''WARNING'' ''-''
           ''A to B to A on 3 May''
         @ kite_row ''Round amounts'' ''MODERATE'' ''WARNING'' ''-'' ''Round amounts'')"
proof
  fix repr :: "json \<Rightarrow> string"
  show "kite_rows repr
      (JDict [(''risk_score'', JInt 3),
              (''indicators'', JList [JStr ''Circular transfers seen'', JStr ''Round amounts'']),
              (''detailed_findings'', JList [JStr ''A to B to A on 3 May''])])
      (JInt 0) =
    Inr (kite_row ''Circular transfers seen'' ''MODERATE'' ''WARNING'' ''-''
           ''A to B to A on 3 May''
         @ kite_row ''Round amounts'' ''MODERATE'' ''WARNING'' ''-'' ''Round amounts'')"
  proof -
    note inst = kite_row_format_by_first_element
      [of "[(''risk_score'', JInt 3),
              (''indicators'', JList [JStr ''Circular transfers seen'', JStr ''Round amounts'']),
              (''detailed_findings'', JList [JStr ''A to B to A on 3 May''])]"
          "JStr ''Circular transfers seen''" "[JStr ''Round amounts'']" repr "JInt 0"
          3 "[JStr ''A to B to A on 3 May'']", THEN conjunct2, THEN conjunct1, rule_format]
    have shape: "map_of [(''risk_score'', JInt 3),
              (''indicators'', JList [JStr ''Circular transfers seen'', JStr ''Round amounts'']),
              (''detailed_findings'', JList [JStr ''A to B to A on 3 May''])] ''indicators''
          = Some (JList [JStr ''Circular transfers seen'', JStr ''Round amounts''])
        \<and> is_str (JStr ''Circular transfers seen'')
        \<and> num_val (field (JDict [(''risk_score'', JInt 3),
              (''indicators'', JList [JStr ''Circular transfers seen'', JStr ''Round amounts'']),
              (''detailed_findings'', JList [JStr ''A to B to A on 3 May''])])
              ''risk_score'' (JInt 0)) = Some 3
        \<and> field (JDict [(''risk_score'', JInt 3),
              (''indicators'', JList [JStr ''Circular transfers seen'', JStr ''Round amounts'']),
              (''detailed_findings'', JList [JStr ''A to B to A on 3 May''])])
              ''detailed_findings'' (JList []) = JList [JStr ''A to B to A on 3 May'']"
      by (simp add: field_def)
    have rendered: "concat (map (string_row_spec repr (0 < (3::rat)) [JStr ''A to B to A on 3 May''])
             (enumerate 0 [JStr ''Circular transfers seen'', JStr ''Round amounts'']))
          = kite_row ''Circular transfers seen'' ''MODERATE'' ''WARNING'' ''-''
              ''A to B to A on 3 May''
            @ kite_row ''Round amounts'' ''MODERATE'' ''WARNING'' ''-'' ''Round amounts''"
      by (simp add: string_row_spec_def)
    show ?thesis
      using inst [OF shape] by (simp only: rendered)
  qed
qed

text \<open>
  The claim as stated derives the status from whether the score is nonzero, and renders
  every element of a list that starts with a keyed object. A score of \<open>-1\<close> is nonzero
  and gives \<^verbatim>\<open>PASS\<close>; a keyed first element followed by a string gives no rows but
  \<^verbatim>\<open>AttributeError\<close>.
\<close>

theorem kite_row_format_counterexample:
  "kite_rows (\<lambda>v. [])
     (JDict [(''risk_score'', JInt (- 1)), (''indicators'', JList [JStr ''Round amounts''])])
     (JInt 0) =
   Inr (kite_row ''Round amounts'' ''LOW'' ''PASS'' ''-'' ''Round amounts'')
   \<and> kite_rows (\<lambda>v. [])
     (JDict [(''indicators'',
        JList [JDict [(''indicator'', JStr ''Round amounts'')], JStr ''Vague descriptions''])])
     (JInt 0) = Inl AttributeError"
  by (simp add: kite_rows_def first_is_def string_row_def py_gt_def structured_row_def
        kite_row_nonempty)

section \<open>Optional sections\<close>

lemma nav_tabs_without_counterparties:
  assumes "\<not> truthy counterparties"
  shows "\<not> substring ''counterparties'' (nav_tabs recurring non_bank counterparties)"
proof (cases "truthy recurring"; cases "truthy non_bank")
qed (simp_all add: assms nav_tabs_def nav_line_def nav_button_def recurring_nav_def
       nonbank_nav_def counterparty_nav_def)

text \<open>
  C9. For every keyed document with no \<^verbatim>\<open>counterparties\<close> key, the navigation block is
  produced and contains no counterparty entry (the text \<^verbatim>\<open>counterparties\<close> occurs nowhere
  in it, whatever the two other optional sections are), the slot of the navigation entry
  is the empty string, and the slot of the counterparty section is the empty string:
  the section markup is not built at all, so nothing stands in its place. (The slots are
  what the compiler itself writes; text of the document interpolated elsewhere is not
  constrained by this.)
\<close>

theorem no_counterparties_no_section:
  assumes "map_of data ''counterparties'' = None"
  shows "(\<exists>nav. navigation (JDict data) = Inr nav \<and> \<not> substring ''counterparties'' nav)
       \<and> counterparty_nav (JDict []) = []
       \<and> counterparty_section section_markup (JDict data) = Inr []"
proof -
  have cp: "py_get (JDict data) ''counterparties'' (JDict []) = Inr (JDict [])"
    using assms by simp
  obtain r n where nav: "navigation (JDict data) = Inr (nav_tabs r n (JDict []))"
    by (simp add: navigation_def assms)
  have "\<not> substring ''counterparties'' (nav_tabs r n (JDict []))"
    by (rule nav_tabs_without_counterparties) simp
  with nav have "\<exists>nav. navigation (JDict data) = Inr nav \<and> \<not> substring ''counterparties'' nav"
    by (intro exI conjI)
  moreover have "counterparty_nav (JDict []) = []"
    by (simp add: counterparty_nav_def)
  moreover have "counterparty_section section_markup (JDict data) = Inr []"
    unfolding counterparty_section_def cp by (simp add: counterparty_tab_def)
  ultimately show ?thesis by (intro conjI)
qed

theorem no_counterparties_no_section_witness:
  \<open>\<forall>section_markup.
     map_of [(''report_info'', JDict [(''company_name'', JStr ''Acme'')]),
             (''recurring_payments'', JDict [(''assessment'', JStr ''OK'')])] ''counterparties''
       = None
     \<and> (\<exists>nav. navigation
            (JDict [(''report_info'', JDict [(''company_name'', JStr ''Acme'')]),
                    (''recurring_payments'', JDict [(''assessment'', JStr ''OK'')])]) = Inr nav
          \<and> substring ''data-tab="recurring"'' nav \<and> \<not> substring ''counterparties'' nav)
     \<and> counterparty_section section_markup
          (JDict [(''report_info'', JDict [(''company_name'', JStr ''Acme'')]),
                  (''recurring_payments'', JDict [(''assessment'', JStr ''OK'')])]) = Inr []\<close>
proof (intro allI conjI)
  fix section_markup :: "json \<Rightarrow> error + string"
  let ?d = "[(''report_info'', JDict [(''company_name'', JStr ''Acme'')]),
             (''recurring_payments'', JDict [(''assessment'', JStr ''OK'')])]"
  show absent: "map_of ?d ''counterparties'' = None"
    by simp
  note inst = no_counterparties_no_section [OF absent, of section_markup]
  have nav: "navigation (JDict ?d) =
        Inr (nav_tabs (JDict [(''assessment'', JStr ''OK'')]) (JDict []) (JDict []))"
    by (simp add: navigation_def)
  have rec: \<open>substring ''data-tab="recurring"''
        (nav_tabs (JDict [(''assessment'', JStr ''OK'')]) (JDict []) (JDict []))\<close>
    by (simp add: nav_tabs_def nav_line_def nav_button_def recurring_nav_def
          nonbank_nav_def counterparty_nav_def)
  from inst obtain nav' where "navigation (JDict ?d) = Inr nav'"
    and "\<not> substring ''counterparties'' nav'"
    by (elim conjE exE)
  with nav rec
  show \<open>\<exists>nav. navigation (JDict ?d) = Inr nav
          \<and> substring ''data-tab="recurring"'' nav \<and> \<not> substring ''counterparties'' nav\<close>
    by simp
  from inst show "counterparty_section section_markup (JDict ?d) = Inr []"
    by (elim conjE)
qed

section \<open>Interpolated text and embedded data\<close>

lemma map_result_total:
  "\<forall>x \<in> set xs. f x = Inr (g x) \<Longrightarrow> map_result f xs = Inr (map g xs)"
  by (induction xs) simp_all

lemma round_entry_dict:
  "is_dict t \<Longrightarrow>
   round_entry t =
     Inr (JDict [(''date'', field t ''date'' (JStr [])),
                 (''desc'', field t ''description'' (JStr [])),
                 (''type'', field t ''type'' (JStr ''CREDIT'')),
                 (''amount'', field t ''amount'' (JInt 0)),
                 (''account'', field t ''account'' (JStr []))])"
  by (simp add: round_entry_def py_get_field)

lemma concat_observation_items:
  "concat (map (observation_item repr) (map JStr ss)) =
   concat (map (\<lambda>s. ''<li class=\"observation-item\">'' @ s @ ''</li>'') ss)"
  by (induction ss) (simp_all add: observation_item_def)

text \<open>
  C2 (as amended). Interpolated text is written into the compiled document as it is,
  with no escaping of the special characters of HTML: a company name \<open>s\<close> appears as
  \<open>s\<close> in the title, each positive observation \<open>s\<close> appears as \<open>s\<close> in its list
  item, a month, a bank name and a level appear as they are in an alert line, and an
  indicator name and a finding appear as they are in a kite-flying row. Embedded structured data is serialized with \<^verbatim>\<open>json.dumps\<close> and never quoted by hand:
  the round-figure transactions as the \<^verbatim>\<open>dumps\<close> of the list of their projections to
  \<^verbatim>\<open>date\<close>, \<^verbatim>\<open>desc\<close>, \<^verbatim>\<open>type\<close>, \<^verbatim>\<open>amount\<close>, \<^verbatim>\<open>account\<close>, and the credit chart series as the
  \<^verbatim>\<open>dumps\<close> of the lists of percentages and of category names.
\<close>

theorem text_verbatim_and_data_dumped:
  \<open>(map_of r ''company_name'' = Some (JStr s) \<longrightarrow>
      title_line repr (JDict r) =
        Inr (''    <title>Bank Statement Analysis v5.0 - '' @ s @ ''</title>''))
   \<and> (map_of observations ''positive'' = Some (JList (map JStr ss)) \<longrightarrow>
      pos_obs repr (JDict observations) =
        Inr (concat (map (\<lambda>s. ''<li class="observation-item">'' @ s @ ''</li>'') ss)))
   \<and> (map_of round_fig ''all_transactions'' = Some (JList ts) \<and> (\<forall>t \<in> set ts. is_dict t) \<longrightarrow>
      round_js dumps (JDict round_fig) =
        Inr (dumps (JList (map (\<lambda>t.
               JDict [(''date'', field t ''date'' (JStr [])),
                      (''desc'', field t ''description'' (JStr [])),
                      (''type'', field t ''type'' (JStr ''CREDIT'')),
                      (''amount'', field t ''amount'' (JInt 0)),
                      (''account'', field t ''account'' (JStr []))]) ts))))
   \<and> ((\<forall>c \<in> set cs. is_dict c) \<longrightarrow>
      credit_chart dumps (JList cs) =
        Inr (dumps (JList (map (\<lambda>c. field c ''percentage'' (JInt 0)) cs)),
             dumps (JList (map (\<lambda>c. field c ''category'' (JStr [])) cs))))
   \<and> alert_line repr (JStr month) (JDict [(''bank_name'', JStr bank)]) (JBool True) (JStr level)
       = Inr (month @ '' ('' @ bank @ ''): 1% volatility - '' @ level)
   \<and> structured_row repr (JDict [(''indicator'', JStr name), (''finding'', JStr finding)])
       = Inr (kite_row name ''LOW'' ''PASS'' ''0'' finding)\<close>
proof (intro conjI impI)
  show "alert_line repr (JStr month) (JDict [(''bank_name'', JStr bank)]) (JBool True) (JStr level)
       = Inr (month @ '' ('' @ bank @ ''): 1% volatility - '' @ level)"
    by (simp add: alert_line_def)
next
  show "structured_row repr (JDict [(''indicator'', JStr name), (''finding'', JStr finding)])
       = Inr (kite_row name ''LOW'' ''PASS'' ''0'' finding)"
    by (simp add: structured_row_def int_text_def dec.simps)
next
  assume "map_of r ''company_name'' = Some (JStr s)"
  then show "title_line repr (JDict r) =
        Inr (''    <title>Bank Statement Analysis v5.0 - '' @ s @ ''</title>'')"
    by (simp add: title_line_def)
next
  assume "map_of observations ''positive'' = Some (JList (map JStr ss))"
  then show \<open>pos_obs repr (JDict observations) =
        Inr (concat (map (\<lambda>s. ''<li class="observation-item">'' @ s @ ''</li>'') ss))\<close>
    by (simp add: pos_obs_def concat_observation_items del: map_map)
next
  assume a: "map_of round_fig ''all_transactions'' = Some (JList ts) \<and> (\<forall>t \<in> set ts. is_dict t)"
  then have txns: "py_get_eval (JDict round_fig) ''all_transactions''
            (py_get_eval (JDict round_fig) ''top_10_transactions''
              (py_get (JDict round_fig) ''transactions'' (JList []))) = Inr (JList ts)"
    by simp
  have entries: "map_result round_entry ts =
      Inr (map (\<lambda>t. JDict [(''date'', field t ''date'' (JStr [])),
                      (''desc'', field t ''description'' (JStr [])),
                      (''type'', field t ''type'' (JStr ''CREDIT'')),
                      (''amount'', field t ''amount'' (JInt 0)),
                      (''account'', field t ''account'' (JStr []))]) ts)"
    using a by (intro map_result_total) (simp add: round_entry_dict)
  show "round_js dumps (JDict round_fig) =
        Inr (dumps (JList (map (\<lambda>t.
               JDict [(''date'', field t ''date'' (JStr [])),
                      (''desc'', field t ''description'' (JStr [])),
                      (''type'', field t ''type'' (JStr ''CREDIT'')),
                      (''amount'', field t ''amount'' (JInt 0)),
                      (''account'', field t ''account'' (JStr []))]) ts)))"
    unfolding round_js_def txns bind_Inr py_iter.simps entries ..
next
  assume a: "\<forall>c \<in> set cs. is_dict c"
  have v: "map_result (\<lambda>c. py_get c ''percentage'' (JInt 0)) cs =
           Inr (map (\<lambda>c. field c ''percentage'' (JInt 0)) cs)"
    using a by (intro map_result_total) (simp add: py_get_field)
  have l: "map_result (\<lambda>c. py_get c ''category'' (JStr [])) cs =
           Inr (map (\<lambda>c. field c ''category'' (JStr [])) cs)"
    using a by (intro map_result_total) (simp add: py_get_field)
  show "credit_chart dumps (JList cs) =
        Inr (dumps (JList (map (\<lambda>c. field c ''percentage'' (JInt 0)) cs)),
             dumps (JList (map (\<lambda>c. field c ''category'' (JStr [])) cs)))"
    unfolding credit_chart_def py_iter.simps bind_Inr v l
    by simp
qed

theorem text_verbatim_and_data_dumped_witness:
  "\<forall>repr dumps.
     title_line repr (JDict [(''company_name'', JStr ''Acme & Sons''), (''total_months'', JInt 6)])
       = Inr ''    <title>Bank Statement Analysis v5.0 - Acme & Sons</title>''
     \<and> round_js dumps (JDict [(''count'', JInt 1), (''all_transactions'',
           JList [JDict [(''date'', JStr ''2024-06-01''), (''amount'', JInt 5000)]])])
       = Inr (dumps (JList [JDict [(''date'', JStr ''2024-06-01''), (''desc'', JStr []),
                                   (''type'', JStr ''CREDIT''), (''amount'', JInt 5000),
                                   (''account'', JStr [])]]))"
proof (intro allI conjI)
  fix repr dumps :: "json \<Rightarrow> string"
  note inst = text_verbatim_and_data_dumped
    [of "[(''company_name'', JStr ''Acme & Sons''), (''total_months'', JInt 6)]" "''Acme & Sons''"
        repr "[]" "[]"
        "[(''count'', JInt 1), (''all_transactions'',
           JList [JDict [(''date'', JStr ''2024-06-01''), (''amount'', JInt 5000)]])]"
        "[JDict [(''date'', JStr ''2024-06-01''), (''amount'', JInt 5000)]]" dumps "[]"
        "[]" "[]" "[]" "[]" "[]"]
  show "title_line repr (JDict [(''company_name'', JStr ''Acme & Sons''), (''total_months'', JInt 6)])
       = Inr ''    <title>Bank Statement Analysis v5.0 - Acme & Sons</title>''"
    using inst [THEN conjunct1] by simp
  show "round_js dumps (JDict [(''count'', JInt 1), (''all_transactions'',
           JList [JDict [(''date'', JStr ''2024-06-01''), (''amount'', JInt 5000)]])])
       = Inr (dumps (JList [JDict [(''date'', JStr ''2024-06-01''), (''desc'', JStr []),
                                   (''type'', JStr ''CREDIT''), (''amount'', JInt 5000),
                                   (''account'', JStr [])]]))"
    using inst [THEN conjunct2, THEN conjunct2, THEN conjunct1] by (simp add: field_def)
qed

text \<open>
  The claim as stated has every interpolated text escaped. A company name with markup
  reaches the title unchanged, which is not its escaped form.
\<close>

theorem company_name_not_escaped_counterexample:
  "title_line (\<lambda>v. []) (JDict [(''company_name'', JStr ''<b>Acme</b> & Sons'')])
     = Inr ''    <title>Bank Statement Analysis v5.0 - <b>Acme</b> & Sons</title>''
   \<and> html_escape ''<b>Acme</b> & Sons'' = ''&lt;b&gt;Acme&lt;/b&gt; &amp; Sons''
   \<and> title_line (\<lambda>v. []) (JDict [(''company_name'', JStr ''<b>Acme</b> & Sons'')])
     \<noteq> Inr (''    <title>Bank Statement Analysis v5.0 - ''
            @ html_escape ''<b>Acme</b> & Sons'' @ ''</title>'')"
  by (simp add: title_line_def)

section \<open>Determinism and the footer timestamp\<close>

lemma footer_generated_dict:
  "footer_generated repr now (JDict r) =
     Inr (''            <p>Generated: ''
          @ py_str repr (case map_of r ''generated_at'' of Some g \<Rightarrow> g | None \<Rightarrow> JStr now)
          @ '' | Period: '' @ py_str repr (field (JDict r) ''period_start'' (JStr []))
          @ '' - '' @ py_str repr (field (JDict r) ''period_end'' (JStr [])) @ ''</p>'')"
  by (simp add: footer_generated_def field_def)

text \<open>
  C1 (as amended). The compiled document is a function of the document and of the clock
  reading of the run. When \<^verbatim>\<open>report_info\<close> supplies \<^verbatim>\<open>generated_at\<close>, the footer shows that
  value and two runs on the same document give the same output whatever the clock says.
  When it does not, the footer shows the clock reading \<^verbatim>\<open>datetime.now().isoformat()\<close>, so the
  output carries a timestamp the source model did not supply, and two runs at different
  clock readings give different outputs.
\<close>

theorem footer_timestamp_from_model_or_clock:
  assumes info: "map_of data ''report_info'' = None \<and> r = []
                 \<or> map_of data ''report_info'' = Some (JDict r)"
      and rest: "template (JDict data) = Inr (before, after)"
  shows "(map_of r ''generated_at'' = Some g \<longrightarrow>
            generate_interactive_html template repr now (JDict data)
              = generate_interactive_html template repr now' (JDict data)
            \<and> generate_interactive_html template repr now (JDict data)
              = Inr (before @ ''            <p>Generated: '' @ py_str repr g
                     @ '' | Period: '' @ py_str repr (field (JDict r) ''period_start'' (JStr []))
                     @ '' - '' @ py_str repr (field (JDict r) ''period_end'' (JStr []))
                     @ ''</p>'' @ after))
       \<and> (map_of r ''generated_at'' = None \<longrightarrow>
            generate_interactive_html template repr now (JDict data)
              = Inr (before @ ''            <p>Generated: '' @ now
                     @ '' | Period: '' @ py_str repr (field (JDict r) ''period_start'' (JStr []))
                     @ '' - '' @ py_str repr (field (JDict r) ''period_end'' (JStr []))
                     @ ''</p>'' @ after)
            \<and> (now \<noteq> now' \<longrightarrow>
                 generate_interactive_html template repr now (JDict data)
                   \<noteq> generate_interactive_html template repr now' (JDict data)))"
proof -
  have i: "py_get (JDict data) ''report_info'' (JDict []) = Inr (JDict r)"
    using info by auto
  have whole: "\<And>t. generate_interactive_html template repr t (JDict data) =
      Inr (before @ ''            <p>Generated: ''
          @ py_str repr (case map_of r ''generated_at'' of Some g \<Rightarrow> g | None \<Rightarrow> JStr t)
          @ '' | Period: '' @ py_str repr (field (JDict r) ''period_start'' (JStr []))
          @ '' - '' @ py_str repr (field (JDict r) ''period_end'' (JStr [])) @ ''</p>'' @ after)"
    unfolding generate_interactive_html_def i rest bind_Inr footer_generated_dict
    by simp
  show ?thesis
    unfolding whole by (cases "map_of r ''generated_at''") simp_all
qed

theorem footer_timestamp_from_model_or_clock_witness:
  "\<forall>repr.
     generate_interactive_html (\<lambda>d. Inr (''<html>'', ''</html>'')) repr ''2024-07-01T09:00:00''
       (JDict [(''report_info'', JDict [(''generated_at'', JStr ''2024-06-30''),
                                        (''period_start'', JStr ''2024-01'')])])
     = generate_interactive_html (\<lambda>d. Inr (''<html>'', ''</html>'')) repr ''2024-07-02T17:30:00''
       (JDict [(''report_info'', JDict [(''generated_at'', JStr ''2024-06-30''),
                                        (''period_start'', JStr ''2024-01'')])])
   \<and> generate_interactive_html (\<lambda>d. Inr (''<html>'', ''</html>'')) repr ''2024-07-01T09:00:00''
       (JDict [(''report_info'', JDict [(''generated_at'', JStr ''2024-06-30''),
                                        (''period_start'', JStr ''2024-01'')])])
     = Inr ''<html>            <p>Generated: 2024-06-30 | Period: 2024-01 - </p></html>''"
proof (intro allI)
  fix repr :: "json \<Rightarrow> string"
  show "generate_interactive_html (\<lambda>d. Inr (''<html>'', ''</html>'')) repr ''2024-07-01T09:00:00''
       (JDict [(''report_info'', JDict [(''generated_at'', JStr ''2024-06-30''),
                                        (''period_start'', JStr ''2024-01'')])])
     = generate_interactive_html (\<lambda>d. Inr (''<html>'', ''</html>'')) repr ''2024-07-02T17:30:00''
       (JDict [(''report_info'', JDict [(''generated_at'', JStr ''2024-06-30''),
                                        (''period_start'', JStr ''2024-01'')])])
   \<and> generate_interactive_html (\<lambda>d. Inr (''<html>'', ''</html>'')) repr ''2024-07-01T09:00:00''
       (JDict [(''report_info'', JDict [(''generated_at'', JStr ''2024-06-30''),
                                        (''period_start'', JStr ''2024-01'')])])
     = Inr ''<html>            <p>Generated: 2024-06-30 | Period: 2024-01 - </p></html>''"
    using footer_timestamp_from_model_or_clock
      [of "[(''report_info'', JDict [(''generated_at'', JStr ''2024-06-30''),
                                        (''period_start'', JStr ''2024-01'')])]"
          "[(''generated_at'', JStr ''2024-06-30''), (''period_start'', JStr ''2024-01'')]"
          "\<lambda>d. Inr (''<html>'', ''</html>'')" "''<html>''" "''</html>''"
          "JStr ''2024-06-30''" repr "''2024-07-01T09:00:00''" "''2024-07-02T17:30:00''"]
    by (auto simp: field_def)
qed

text \<open>
  The claim as stated makes two runs on the same document byte-identical and allows no
  timestamp the model does not supply. A document without \<^verbatim>\<open>generated_at\<close>, compiled at two
  clock readings one second apart, gives two different footers, each with its timestamp.
\<close>

theorem clock_in_footer_counterexample:
  "generate_interactive_html (\<lambda>d. Inr (''<html>'', ''</html>'')) (\<lambda>v. [])
     ''2024-07-01T09:00:00'' (JDict [(''report_info'', JDict [(''company_name'', JStr ''Acme'')])])
   = Inr ''<html>            <p>Generated: 2024-07-01T09:00:00 | Period:  - </p></html>''
   \<and> generate_interactive_html (\<lambda>d. Inr (''<html>'', ''</html>'')) (\<lambda>v. [])
     ''2024-07-01T09:00:01'' (JDict [(''report_info'', JDict [(''company_name'', JStr ''Acme'')])])
   = Inr ''<html>            <p>Generated: 2024-07-01T09:00:01 | Period:  - </p></html>''"
  by (simp add: generate_interactive_html_def footer_generated_def)

end
